theory Spec2Isabelle
  imports Main "HOL-Library.Sublist"
begin

section \<open>Values\<close>

text \<open>
  The script \<^verbatim>\<open>scripts/check_caddy_status.py\<close> works on the values that
  \<^verbatim>\<open>response.json()\<close> returns: \<^verbatim>\<open>None\<close>, booleans, integers, strings, lists and
  dicts with string keys. A dict is an association list with distinct keys, read with
  \<open>map_of\<close>. Strings are byte strings. JSON numbers with a fraction are not part of
  the model.
\<close>

datatype json =
    JNull
  | JBool bool
  | JNum int
  | JStr string
  | JArr "json list"
  | JObj "(string \<times> json) list"

text \<open>Python truthiness (\<^verbatim>\<open>if x:\<close>, \<^verbatim>\<open>not x\<close>).\<close>

fun truthy :: "json \<Rightarrow> bool" where
  "truthy JNull = False"
| "truthy (JBool b) = b"
| "truthy (JNum n) = (n \<noteq> 0)"
| "truthy (JStr s) = (s \<noteq> [])"
| "truthy (JArr xs) = (xs \<noteq> [])"
| "truthy (JObj kvs) = (kvs \<noteq> [])"

text \<open>\<^verbatim>\<open>d.get(k)\<close> on a dict: the value, or \<^verbatim>\<open>None\<close>.\<close>

definition dict_get :: "(string \<times> json) list \<Rightarrow> string \<Rightarrow> json" where
  "dict_get kvs k = (case map_of kvs k of None \<Rightarrow> JNull | Some v \<Rightarrow> v)"

text \<open>\<^verbatim>\<open>d.get(k, default)\<close> on a dict.\<close>

definition dict_get_default :: "(string \<times> json) list \<Rightarrow> string \<Rightarrow> json \<Rightarrow> json" where
  "dict_get_default kvs k d = (case map_of kvs k of None \<Rightarrow> d | Some v \<Rightarrow> v)"

text \<open>
  A method call \<^verbatim>\<open>x.get(...)\<close> needs a dict and \<^verbatim>\<open>x.startswith(...)\<close> a string: on any
  other value the attribute lookup raises \<^verbatim>\<open>AttributeError\<close>.
\<close>

definition as_dict :: "json \<Rightarrow> (string \<times> json) list option" where
  "as_dict v = (case v of JObj kvs \<Rightarrow> Some kvs | _ \<Rightarrow> None)"

definition as_str :: "json \<Rightarrow> string option" where
  "as_str v = (case v of JStr s \<Rightarrow> Some s | _ \<Rightarrow> None)"

subsection \<open>Rendering a value in an f-string\<close>

fun digits_of_nat :: "nat \<Rightarrow> string" where
  "digits_of_nat n =
     (if n < 10 then [char_of (48 + n)]
      else digits_of_nat (n div 10) @ [char_of (48 + n mod 10)])"

definition str_of_int :: "int \<Rightarrow> string" where
  "str_of_int i = (if i < 0 then CHR ''-'' # digits_of_nat (nat (- i)) else digits_of_nat (nat i))"

definition hex_digit :: "nat \<Rightarrow> char" where
  "hex_digit n = (if n < 10 then char_of (48 + n) else char_of (87 + n))"

text \<open>
  \<^verbatim>\<open>repr\<close> of a string: single quotes, unless the string has a single quote and no
  double quote; the quote and the backslash are escaped, as are the control characters.
  Bytes from 128 on stand for printable characters and are kept.
\<close>

definition repr_char :: "char \<Rightarrow> char \<Rightarrow> string" where
  "repr_char q c =
     (if c = q \<or> c = CHR 0x5C then [CHR 0x5C, c]
      else if c = CHR 0x09 then [CHR 0x5C, CHR ''t'']
      else if c = CHR 0x0A then [CHR 0x5C, CHR ''n'']
      else if c = CHR 0x0D then [CHR 0x5C, CHR ''r'']
      else if (of_char c :: nat) < 32 \<or> c = CHR 0x7F
        then [CHR 0x5C, CHR ''x'', hex_digit (of_char c div 16), hex_digit (of_char c mod 16)]
      else [c])"

definition repr_str :: "string \<Rightarrow> string" where
  "repr_str s =
     (let q = (if CHR 0x27 \<in> set s \<and> CHR 0x22 \<notin> set s then CHR 0x22 else CHR 0x27)
      in q # concat (map (repr_char q) s) @ [q])"

fun join :: "string \<Rightarrow> string list \<Rightarrow> string" where
  "join sep [] = []"
| "join sep [x] = x"
| "join sep (x # y # ys) = x @ sep @ join sep (y # ys)"

fun py_repr :: "json \<Rightarrow> string" where
  "py_repr JNull = ''None''"
| "py_repr (JBool b) = (if b then ''True'' else ''False'')"
| "py_repr (JNum n) = str_of_int n"
| "py_repr (JStr s) = repr_str s"
| "py_repr (JArr xs) = ''['' @ join '', '' (map py_repr xs) @ '']''"
| "py_repr (JObj kvs) =
     ''{'' @ join '', '' (map (\<lambda>kv. repr_str (fst kv) @ '': '' @ py_repr (snd kv)) kvs) @ ''}''"

text \<open>\<^verbatim>\<open>str(x)\<close>, which is what \<^verbatim>\<open>f"{x}"\<close> inserts.\<close>

definition py_str :: "json \<Rightarrow> string" where
  "py_str v = (case v of JStr s \<Rightarrow> s | _ \<Rightarrow> py_repr v)"

subsection \<open>String methods\<close>

definition lower_char :: "char \<Rightarrow> char" where
  "lower_char c =
     (let n = (of_char c :: nat) in if 65 \<le> n \<and> n \<le> 90 then char_of (n + 32) else c)"

definition upper_char :: "char \<Rightarrow> char" where
  "upper_char c =
     (let n = (of_char c :: nat) in if 97 \<le> n \<and> n \<le> 122 then char_of (n - 32) else c)"

text \<open>
  What \<^verbatim>\<open>s.lower()\<close> and \<^verbatim>\<open>s.upper()\<close> give on a string of ASCII characters. On other
  strings the two methods follow the case tables of Unicode, which are no part of the
  script: the model takes them from the environment (\<open>str_lower\<close> and \<open>str_upper\<close>
  below).
\<close>

definition ascii_lower :: "string \<Rightarrow> string" where
  "ascii_lower s = map lower_char s"

definition ascii_upper :: "string \<Rightarrow> string" where
  "ascii_upper s = map upper_char s"

text \<open>\<^verbatim>\<open>s.startswith(p)\<close>.\<close>

definition startswith :: "string \<Rightarrow> string \<Rightarrow> bool" where
  "startswith s p = (take (length p) s = p)"

text \<open>\<^verbatim>\<open>s.lstrip('v')\<close>: every leading \<^verbatim>\<open>v\<close> is removed.\<close>

definition lstrip_v :: "string \<Rightarrow> string" where
  "lstrip_v s = dropWhile (\<lambda>c. c = CHR ''v'') s"

section \<open>Configuration, environment and state\<close>

definition GITHUB_REPO :: string where
  "GITHUB_REPO = ''caddyserver/caddy''"

definition OFFICIAL_CADDY_IMAGE :: string where
  "OFFICIAL_CADDY_IMAGE = ''library/caddy''"

definition CUSTOM_TAG_PREFIX :: string where
  "CUSTOM_TAG_PREFIX = []"

definition REQUIRED_PLATFORMS :: "string set" where
  "REQUIRED_PLATFORMS = {''linux/amd64'', ''linux/arm64''}"

text \<open>
  A call of \<^verbatim>\<open>requests.get\<close> raises \<^verbatim>\<open>Timeout\<close>, raises another
  \<^verbatim>\<open>RequestException\<close>, or returns a response. Of a response the script reads the
  status code and \<^verbatim>\<open>response.json()\<close>, which raises a \<^verbatim>\<open>JSONDecodeError\<close> when the
  body is not JSON (\<open>None\<close> here).
\<close>

datatype request = Get (url: string) (headers: "(string \<times> string) list") (timeout: nat)

datatype http_result =
    Timeout
  | RequestException
  | Response (status_code: int) (json_body: "json option")

text \<open>
  What the process is given: the environment variables, the network (the answer to a
  request may depend on how many requests came before it), whether the output file can
  be opened for appending (by the number of earlier attempts), the values that
  successive calls of \<^verbatim>\<open>uuid.uuid4()\<close> return, and the interpreter's \<^verbatim>\<open>str.lower\<close> and
  \<^verbatim>\<open>str.upper\<close>.
\<close>

record env =
  environ :: "string \<Rightarrow> string option"
  str_lower :: "string \<Rightarrow> string"
  str_upper :: "string \<Rightarrow> string"
  http_get :: "nat \<Rightarrow> request \<Rightarrow> http_result"
  open_ok :: "nat \<Rightarrow> string \<Rightarrow> bool"
  uuid4 :: "nat \<Rightarrow> string"

definition CUSTOM_IMAGE :: "env \<Rightarrow> string" where
  "CUSTOM_IMAGE e =
     (case environ e ''DOCKERHUB_REPOSITORY_NAME'' of
        None \<Rightarrow> ''caddybuilds/caddy-cloudflare'' | Some v \<Rightarrow> v)"

definition CUSTOM_REGISTRY :: "env \<Rightarrow> string" where
  "CUSTOM_REGISTRY e =
     str_lower e (case environ e ''CUSTOM_REGISTRY'' of None \<Rightarrow> ''ghcr'' | Some v \<Rightarrow> v)"

text \<open>
  Each call of \<^verbatim>\<open>log_info\<close> and \<^verbatim>\<open>log_error\<close> is recorded as the message it prints,
  with the values of the model that the message shows. Clock readings and the texts of
  exceptions and response bodies are not part of a message here. The messages of lines
  83, 106 and 223 are never printed: the \<^verbatim>\<open>JSONDecodeError\<close> that \<^verbatim>\<open>response.json()\<close>
  raises is a \<^verbatim>\<open>RequestException\<close>, and the handler for those comes first.
\<close>

datatype info =
    Fetching_release_authenticated
  | Fetching_release_unauthenticated
  | Release_tag_found string
  | No_registry_token int
  | Registry_token_error
  | No_images_list
  | Starting
  | Using_registry string
  | Required_platforms_are "string set"
  | Step1 string string
  | Official_tag_found string
  | Official_platforms "string set"
  | Official_complete
  | Official_missing "string set"
  | Official_not_found string
  | Result_not_ready
  | Step2 string string string
  | Custom_found string string
  | Custom_platforms "string set"
  | Custom_complete string
  | Custom_missing string "string set"
  | Custom_not_found string string
  | Final_decision string bool
  | Finished

datatype err =
    Output_write_failed string
  | Invalid_tag_name json
  | Release_timeout
  | Release_http_error int
  | Release_response_body
  | Release_network_error
  | Hub_unexpected_status int string string
  | Hub_timeout string string
  | Hub_network_error string string
  | Ghcr_no_token
  | Ghcr_auth_failed int
  | Ghcr_auth_hint string
  | Ghcr_unexpected_status int string string
  | Ghcr_no_platform_info string string
  | Ghcr_unknown_manifest_type string string json
  | Ghcr_timeout string string
  | Ghcr_network_error string string
  | Config_no_platforms
  | Config_bad_registry string

datatype log_entry =
    Info info
  | Error err
  | Warning_no_output string

text \<open>
  What a run changes: the requests sent so far, the lines printed, the text appended to
  the file that \<^verbatim>\<open>GITHUB_OUTPUT\<close> names, and the numbers of attempts to open that file
  and of \<^verbatim>\<open>uuid4\<close> calls.
\<close>

record state =
  trace :: "request list"
  log :: "log_entry list"
  out_file :: string
  opens :: nat
  uuids_drawn :: nat

text \<open>
  How a call ends when it does not return: \<^verbatim>\<open>sys.exit(n)\<close>, or an exception that no
  handler of the script catches. The interpreter exits with status 1 on the latter.
\<close>

datatype exc = SystemExit int | TypeError | AttributeError

fun exit_code :: "exc + unit \<Rightarrow> int" where
  "exit_code (Inr u) = 0"
| "exit_code (Inl (SystemExit n)) = n"
| "exit_code (Inl TypeError) = 1"
| "exit_code (Inl AttributeError) = 1"

definition log_error :: "err \<Rightarrow> state \<Rightarrow> state" where
  "log_error m s = s\<lparr>log := log s @ [Error m]\<rparr>"

definition log_info :: "info \<Rightarrow> state \<Rightarrow> state" where
  "log_info m s = s\<lparr>log := log s @ [Info m]\<rparr>"

definition requests_get :: "env \<Rightarrow> request \<Rightarrow> state \<Rightarrow> http_result \<times> state" where
  "requests_get e req s = (http_get e (length (trace s)) req, s\<lparr>trace := trace s @ [req]\<rparr>)"

section \<open>Writing an output\<close>

definition newline :: string where
  "newline = [CHR 0x0A]"

definition set_action_output :: "env \<Rightarrow> string \<Rightarrow> string \<Rightarrow> state \<Rightarrow> (exc + unit) \<times> state" where
  "set_action_output e output_name output_value s =
     (case environ e ''GITHUB_OUTPUT'' of
        None \<Rightarrow> (Inr (), s\<lparr>log := log s @ [Warning_no_output output_name]\<rparr>)
      | Some output_path \<Rightarrow>
          if \<not> open_ok e (opens s) output_path
          then (Inl (SystemExit 1),
                log_error (Output_write_failed output_path) (s\<lparr>opens := Suc (opens s)\<rparr>))
          else if CHR 0x0A \<in> set output_value
          then
            (let delimiter = ''ghadelimiter_'' @ uuid4 e (uuids_drawn s)
             in (Inr (),
                 s\<lparr>opens := Suc (opens s), uuids_drawn := Suc (uuids_drawn s),
                   out_file := out_file s @ output_name @ ''<<'' @ delimiter @ newline
                                 @ output_value @ newline @ delimiter @ newline\<rparr>))
          else
            (Inr (),
             s\<lparr>opens := Suc (opens s),
               out_file := out_file s @ output_name @ ''='' @ output_value @ newline\<rparr>))"

section \<open>Platforms of a tag\<close>

text \<open>Lines 244 to 248: the platform string of an entry of the list.\<close>

definition platform_str :: "json \<Rightarrow> json \<Rightarrow> json \<Rightarrow> string" where
  "platform_str os_name arch variant =
     (if arch = JStr ''arm'' \<and> variant = JStr ''v7''
        then py_str os_name @ ''/'' @ py_str arch @ ''/'' @ py_str variant
      else if py_str os_name @ ''/'' @ py_str arch \<in> REQUIRED_PLATFORMS
        then py_str os_name @ ''/'' @ py_str arch
      else [])"

text \<open>Lines 235 to 251: the body of the loop over the list, on the set built so far.\<close>

definition add_platform :: "json \<Rightarrow> string set \<Rightarrow> string set" where
  "add_platform img platforms =
     (case img of
        JObj kvs \<Rightarrow>
          (let os_name = dict_get kvs ''os'';
               arch = dict_get kvs ''architecture'';
               variant = dict_get kvs ''variant''
           in if os_name \<noteq> JStr ''linux'' \<or> \<not> truthy arch then platforms
              else if platform_str os_name arch variant \<in> REQUIRED_PLATFORMS
                then insert (platform_str os_name arch variant) platforms
              else platforms)
      | _ \<Rightarrow> platforms)"

text \<open>
  The test of line 230. \<^verbatim>\<open>'images' not in tag_data\<close> is a key test on a dict, an
  element test on a list and a substring test on a string, and raises on a number or a
  boolean; \<^verbatim>\<open>tag_data['images']\<close> raises on a list and on a string.
\<close>

definition get_platforms_from_tag_data :: "json \<Rightarrow> state \<Rightarrow> (exc + string set) \<times> state" where
  "get_platforms_from_tag_data tag_data s =
     (if \<not> truthy tag_data then (Inr {}, log_info No_images_list s)
      else case tag_data of
        JObj kvs \<Rightarrow>
          (case map_of kvs ''images'' of
             Some (JArr imgs) \<Rightarrow> (Inr (fold add_platform imgs {}), s)
           | _ \<Rightarrow> (Inr {}, log_info No_images_list s))
      | JArr xs \<Rightarrow>
          if JStr ''images'' \<notin> set xs then (Inr {}, log_info No_images_list s)
          else (Inl TypeError, s)
      | JStr str \<Rightarrow>
          if \<not> sublist ''images'' str then (Inr {}, log_info No_images_list s)
          else (Inl TypeError, s)
      | _ \<Rightarrow> (Inl TypeError, s))"

text \<open>
  Lines 285 and 287, and again 317 and 319: the required platforms that a found set
  lacks, and the verdict that none is missing.
\<close>

definition required_platforms_missing :: "string set \<Rightarrow> string set" where
  "required_platforms_missing found = REQUIRED_PLATFORMS - found"

definition has_all_required :: "string set \<Rightarrow> bool" where
  "has_all_required found = (required_platforms_missing found = {})"


section \<open>Network calls\<close>

text \<open>
  The URLs and headers of the requests (lines 52 and 56, 89, 121 and 125, 138 to 142,
  188 to 192).
\<close>

definition release_url :: string where
  "release_url = ''https://api.github.com/repos/'' @ GITHUB_REPO @ ''/releases/latest''"

definition bearer :: "string \<Rightarrow> string \<times> string" where
  "bearer t = (''Authorization'', ''Bearer '' @ t)"

definition hub_tag_url :: "string \<Rightarrow> string \<Rightarrow> string" where
  "hub_tag_url image_name tag =
     ''https://hub.docker.com/v2/repositories/'' @ image_name @ ''/tags/'' @ tag"

definition ghcr_token_url :: "string \<Rightarrow> string" where
  "ghcr_token_url image_name =
     ''https://ghcr.io/token?scope=repository:'' @ image_name @ '':pull''"

definition ghcr_manifest_url :: "string \<Rightarrow> string \<Rightarrow> string" where
  "ghcr_manifest_url image_name tag = ''https://ghcr.io/v2/'' @ image_name @ ''/manifests/'' @ tag"

definition ghcr_blob_url :: "string \<Rightarrow> string \<Rightarrow> string" where
  "ghcr_blob_url image_name digest = ''https://ghcr.io/v2/'' @ image_name @ ''/blobs/'' @ digest"

definition accept_index :: "string \<times> string" where
  "accept_index =
     (''Accept'', ''application/vnd.oci.image.index.v1+json, ''
                  @ ''application/vnd.docker.distribution.manifest.list.v2+json'')"

definition accept_config :: "string \<times> string" where
  "accept_config = (''Accept'', ''application/vnd.oci.image.config.v1+json'')"

text \<open>
  Sequencing: a call that ended in \<^verbatim>\<open>sys.exit\<close> or an uncaught exception ends its
  caller the same way; otherwise the caller goes on with the value returned.
\<close>

fun and_then ::
  "(exc + 'a) \<times> state \<Rightarrow> ('a \<Rightarrow> state \<Rightarrow> (exc + 'b) \<times> state) \<Rightarrow> (exc + 'b) \<times> state" where
  "and_then (Inl x, s) f = (Inl x, s)"
| "and_then (Inr v, s) f = f v s"

subsection \<open>The latest release\<close>

text \<open>
  Lines 63 to 84: what \<^verbatim>\<open>get_latest_caddy_release\<close> makes of the outcome of its
  request. \<^verbatim>\<open>raise_for_status\<close> raises for the statuses from 400 to 599.
  \<^verbatim>\<open>release.get\<close> on a value that is not a dict, and \<^verbatim>\<open>tag_name.startswith\<close> on a
  value that is not a string, raise \<^verbatim>\<open>AttributeError\<close>, which no handler catches.
\<close>

definition read_release :: "http_result \<Rightarrow> state \<Rightarrow> (exc + string) \<times> state" where
  "read_release response s =
     (case response of
        Timeout \<Rightarrow> (Inl (SystemExit 1), log_error Release_timeout s)
      | RequestException \<Rightarrow> (Inl (SystemExit 1), log_error Release_network_error s)
      | Response status body \<Rightarrow>
          if 400 \<le> status \<and> status < 600 then
            (Inl (SystemExit 1),
             (if 400 \<le> status \<and> status < 500 then log_error Release_response_body else id)
               (log_error (Release_http_error status) s))
          else
            (case body of
               None \<Rightarrow> (Inl (SystemExit 1), log_error Release_network_error s)
             | Some release_json \<Rightarrow>
                 (case as_dict release_json of
                    None \<Rightarrow> (Inl AttributeError, s)
                  | Some release \<Rightarrow>
                      (let tag_name = dict_get release ''tag_name''
                       in if \<not> truthy tag_name
                          then (Inl (SystemExit 1), log_error (Invalid_tag_name tag_name) s)
                          else case as_str tag_name of
                                 None \<Rightarrow> (Inl AttributeError, s)
                               | Some t \<Rightarrow>
                                   if \<not> startswith t ''v''
                                   then (Inl (SystemExit 1),
                                         log_error (Invalid_tag_name tag_name) s)
                                   else (Inr t, log_info (Release_tag_found t) s)))))"

definition get_latest_caddy_release :: "env \<Rightarrow> string option \<Rightarrow> state \<Rightarrow> (exc + string) \<times> state" where
  "get_latest_caddy_release e token s =
     (let url = release_url;
          (headers, s) =
            (case token of
               Some t \<Rightarrow>
                 if t \<noteq> [] then ([bearer t], log_info Fetching_release_authenticated s)
                 else ([], log_info Fetching_release_unauthenticated s)
             | None \<Rightarrow> ([], log_info Fetching_release_unauthenticated s));
          (response, s) = requests_get e (Get url headers 30) s
      in read_release response s)"

subsection \<open>Docker Hub\<close>

definition check_docker_hub_tag :: "env \<Rightarrow> string \<Rightarrow> string \<Rightarrow> state \<Rightarrow> (exc + json) \<times> state" where
  "check_docker_hub_tag e image_name tag s =
     (let url = hub_tag_url image_name tag;
          (response, s) = requests_get e (Get url [] 45) s
      in case response of
           Timeout \<Rightarrow> (Inr JNull, log_error (Hub_timeout tag image_name) s)
         | RequestException \<Rightarrow> (Inr JNull, log_error (Hub_network_error tag image_name) s)
         | Response status body \<Rightarrow>
             if status = 200 then
               (case body of
                  None \<Rightarrow> (Inr JNull, log_error (Hub_network_error tag image_name) s)
                | Some data \<Rightarrow> (Inr data, s))
             else if status = 404 then (Inr JNull, s)
             else (Inr JNull, log_error (Hub_unexpected_status status tag image_name) s))"

subsection \<open>GHCR\<close>

text \<open>
  Lines 170 to 177, and again 200 to 207: the entry built from an operating system, an
  architecture and a variant, when the first two are truthy.
\<close>

definition image_entry :: "json \<Rightarrow> json \<Rightarrow> json \<Rightarrow> json option" where
  "image_entry os_name arch variant =
     (if truthy os_name \<and> truthy arch
      then Some (JObj ([(''os'', os_name), (''architecture'', arch)]
                       @ (if truthy variant then [(''variant'', variant)] else [])))
      else None)"

text \<open>
  What \<^verbatim>\<open>for m in v\<close> runs over: the elements of a list, the keys of a dict, the
  characters of a string; any other value raises \<^verbatim>\<open>TypeError\<close>.
\<close>

definition py_iter :: "json \<Rightarrow> exc + json list" where
  "py_iter v =
     (case v of
        JArr xs \<Rightarrow> Inr xs
      | JObj kvs \<Rightarrow> Inr (map (\<lambda>kv. JStr (fst kv)) kvs)
      | JStr str \<Rightarrow> Inr (map (\<lambda>c. JStr [c]) str)
      | _ \<Rightarrow> Inl TypeError)"

text \<open>
  Lines 164 to 177: the loop over the manifests of an index. \<^verbatim>\<open>m.get\<close> and
  \<^verbatim>\<open>platform.get\<close> raise on a value that is not a dict.
\<close>

fun manifest_images :: "json list \<Rightarrow> json list \<Rightarrow> exc + json list" where
  "manifest_images [] images = Inr images"
| "manifest_images (m # ms) images =
     (case as_dict m of
        None \<Rightarrow> Inl AttributeError
      | Some mkvs \<Rightarrow>
          (case as_dict (dict_get_default mkvs ''platform'' (JObj [])) of
             None \<Rightarrow> Inl AttributeError
           | Some platform \<Rightarrow>
               (case image_entry (dict_get platform ''os'') (dict_get platform ''architecture'')
                       (dict_get platform ''variant'') of
                  Some entry \<Rightarrow> manifest_images ms (images @ [entry])
                | None \<Rightarrow> manifest_images ms images)))"

definition INDEX_TYPES :: "json set" where
  "INDEX_TYPES = {JStr ''application/vnd.oci.image.index.v1+json'',
                  JStr ''application/vnd.docker.distribution.manifest.list.v2+json''}"

definition MANIFEST_TYPES :: "json set" where
  "MANIFEST_TYPES = {JStr ''application/vnd.oci.image.manifest.v1+json'',
                     JStr ''application/vnd.docker.distribution.manifest.v2+json''}"

text \<open>Lines 163 to 179: a multi-platform index.\<close>

definition multi_arch_manifest :: "(string \<times> json) list \<Rightarrow> state \<Rightarrow> (exc + json) \<times> state" where
  "multi_arch_manifest manifest s =
     (case py_iter (dict_get_default manifest ''manifests'' (JArr [])) of
        Inl x \<Rightarrow> (Inl x, s)
      | Inr ms \<Rightarrow>
          (case manifest_images ms [] of
             Inl x \<Rightarrow> (Inl x, s)
           | Inr images \<Rightarrow>
               (Inr (if images \<noteq> [] then JObj [(''images'', JArr images)] else JNull), s)))"

text \<open>
  Lines 194 to 210: what is made of the answer to the request for the configuration
  blob.
\<close>

definition read_config :: "string \<Rightarrow> string \<Rightarrow> http_result \<Rightarrow> state \<Rightarrow> (exc + json) \<times> state" where
  "read_config image_name tag config_response s =
     (case config_response of
        Timeout \<Rightarrow> (Inr JNull, log_error (Ghcr_timeout tag image_name) s)
      | RequestException \<Rightarrow> (Inr JNull, log_error (Ghcr_network_error tag image_name) s)
      | Response status body \<Rightarrow>
          if status = 200 then
            (case body of
               None \<Rightarrow> (Inr JNull, log_error (Ghcr_network_error tag image_name) s)
             | Some config_json \<Rightarrow>
                 (case as_dict config_json of
                    None \<Rightarrow> (Inl AttributeError, s)
                  | Some config \<Rightarrow>
                      (case image_entry (dict_get config ''os'') (dict_get config ''architecture'')
                              (dict_get config ''variant'') of
                         Some entry \<Rightarrow> (Inr (JObj [(''images'', JArr [entry])]), s)
                       | None \<Rightarrow>
                           (Inr JNull, log_error (Ghcr_no_platform_info image_name tag) s))))
          else (Inr JNull, log_error (Ghcr_no_platform_info image_name tag) s))"

text \<open>
  Lines 186 to 210: a single-platform manifest. The platform is read from the
  configuration blob that the manifest's digest names.
\<close>

definition single_arch_manifest ::
  "env \<Rightarrow> string \<Rightarrow> string \<Rightarrow> json \<Rightarrow> (string \<times> json) list \<Rightarrow> state \<Rightarrow> (exc + json) \<times> state" where
  "single_arch_manifest e image_name tag registry_token manifest s =
     (case as_dict (dict_get_default manifest ''config'' (JObj [])) of
        None \<Rightarrow> (Inl AttributeError, s)
      | Some config_ref \<Rightarrow>
          (let config_digest = dict_get config_ref ''digest''
           in if truthy config_digest then
                (let config_url = ghcr_blob_url image_name (py_str config_digest);
                     config_headers = [bearer (py_str registry_token), accept_config];
                     (config_response, s) = requests_get e (Get config_url config_headers 45) s
                 in read_config image_name tag config_response s)
              else (Inr JNull, log_error (Ghcr_no_platform_info image_name tag) s)))"

text \<open>Lines 146 to 224: what is made of the answer to the manifest request.\<close>

definition read_manifest ::
  "env \<Rightarrow> string \<Rightarrow> string \<Rightarrow> json \<Rightarrow> http_result \<Rightarrow> state \<Rightarrow> (exc + json) \<times> state" where
  "read_manifest e image_name tag registry_token response s =
     (case response of
        Timeout \<Rightarrow> (Inr JNull, log_error (Ghcr_timeout tag image_name) s)
      | RequestException \<Rightarrow> (Inr JNull, log_error (Ghcr_network_error tag image_name) s)
      | Response status body \<Rightarrow>
          if status = 404 then (Inr JNull, s)
          else if status = 401 \<or> status = 403 then
            (Inr JNull,
             log_error (Ghcr_auth_hint image_name) (log_error (Ghcr_auth_failed status) s))
          else if status \<noteq> 200 then
            (Inr JNull, log_error (Ghcr_unexpected_status status tag image_name) s)
          else
            (case body of
               None \<Rightarrow> (Inr JNull, log_error (Ghcr_network_error tag image_name) s)
             | Some manifest_json \<Rightarrow>
                 (case as_dict manifest_json of
                    None \<Rightarrow> (Inl AttributeError, s)
                  | Some manifest \<Rightarrow>
                      if dict_get manifest ''mediaType'' \<in> INDEX_TYPES
                      then multi_arch_manifest manifest s
                      else if dict_get manifest ''mediaType'' \<in> MANIFEST_TYPES
                      then single_arch_manifest e image_name tag registry_token manifest s
                      else
                        (Inr JNull,
                         log_error (Ghcr_unknown_manifest_type image_name tag
                                      (dict_get manifest ''mediaType'')) s))))"

text \<open>
  Lines 138 to 224: the manifest request, with the token that the first part of
  \<^verbatim>\<open>check_ghcr_tag\<close> settled on.
\<close>

definition fetch_manifest ::
  "env \<Rightarrow> string \<Rightarrow> string \<Rightarrow> json \<Rightarrow> state \<Rightarrow> (exc + json) \<times> state" where
  "fetch_manifest e image_name tag registry_token s =
     (let manifest_url = ghcr_manifest_url image_name tag;
          headers = [bearer (py_str registry_token), accept_index];
          (response, s) = requests_get e (Get manifest_url headers 45) s
      in read_manifest e image_name tag registry_token response s)"

text \<open>
  Lines 128 to 136: the registry token after the exchange. The exchange is under
  \<^verbatim>\<open>except Exception\<close>: a body that is not JSON, or is not a dict, falls back to the
  GitHub token like a failed request.
\<close>

definition registry_token_of :: "string \<Rightarrow> http_result \<Rightarrow> state \<Rightarrow> json \<times> state" where
  "registry_token_of t auth_response s =
     (case auth_response of
        Response status body \<Rightarrow>
          if status = 200 then
            (case body of
               None \<Rightarrow> (JStr t, log_info Registry_token_error s)
             | Some auth_json \<Rightarrow>
                 (case as_dict auth_json of
                    None \<Rightarrow> (JStr t, log_info Registry_token_error s)
                  | Some auth \<Rightarrow> (dict_get auth ''token'', s)))
          else (JStr t, log_info (No_registry_token status) s)
      | _ \<Rightarrow> (JStr t, log_info Registry_token_error s))"

definition check_ghcr_tag ::
  "env \<Rightarrow> string \<Rightarrow> string \<Rightarrow> string option \<Rightarrow> state \<Rightarrow> (exc + json) \<times> state" where
  "check_ghcr_tag e image_name tag token s =
     (case token of
        None \<Rightarrow> (Inr JNull, log_error Ghcr_no_token s)
      | Some t \<Rightarrow>
          if t = [] then (Inr JNull, log_error Ghcr_no_token s)
          else
            (let auth_url = ghcr_token_url image_name;
                 (auth_response, s) = requests_get e (Get auth_url [bearer t] 30) s;
                 (registry_token, s) = registry_token_of t auth_response s
             in fetch_manifest e image_name tag registry_token s))"

section \<open>The run\<close>

text \<open>Lines 277 to 293: is the official image there, with every required platform?\<close>

definition check_official :: "env \<Rightarrow> string \<Rightarrow> state \<Rightarrow> (exc + bool) \<times> state" where
  "check_official e official_docker_tag s =
     and_then
       (check_docker_hub_tag e OFFICIAL_CADDY_IMAGE official_docker_tag
          (log_info (Step1 OFFICIAL_CADDY_IMAGE official_docker_tag) s))
       (\<lambda>official_image_data s.
          if truthy official_image_data then
            and_then
              (get_platforms_from_tag_data official_image_data
                 (log_info (Official_tag_found official_docker_tag) s))
              (\<lambda>found_official_platforms s.
                 let s = log_info (Official_platforms found_official_platforms) s
                 in if has_all_required found_official_platforms
                    then (Inr True, log_info Official_complete s)
                    else (Inr False,
                          log_info (Official_missing
                                      (required_platforms_missing found_official_platforms)) s))
          else (Inr False, log_info (Official_not_found official_docker_tag) s))"

text \<open>Lines 306 to 311: the check of the custom image on the configured registry.\<close>

definition lookup_custom :: "env \<Rightarrow> string \<Rightarrow> string option \<Rightarrow> state \<Rightarrow> (exc + json) \<times> state" where
  "lookup_custom e custom_docker_tag github_token s =
     (if CUSTOM_REGISTRY e = ''dockerhub''
      then check_docker_hub_tag e (CUSTOM_IMAGE e) custom_docker_tag s
      else check_ghcr_tag e (CUSTOM_IMAGE e) custom_docker_tag github_token s)"

definition registry_name :: "env \<Rightarrow> string" where
  "registry_name e = (if CUSTOM_REGISTRY e = ''dockerhub'' then ''Docker Hub'' else ''GHCR.io'')"

text \<open>Lines 303 to 325: is the custom image there, with every required platform?\<close>

definition check_custom :: "env \<Rightarrow> string \<Rightarrow> string option \<Rightarrow> state \<Rightarrow> (exc + bool) \<times> state" where
  "check_custom e custom_docker_tag github_token s =
     and_then
       (lookup_custom e custom_docker_tag github_token
          (log_info (Step2 (CUSTOM_IMAGE e) custom_docker_tag (str_upper e (CUSTOM_REGISTRY e))) s))
       (\<lambda>custom_tag_data s.
          if truthy custom_tag_data then
            and_then
              (get_platforms_from_tag_data custom_tag_data
                 (log_info (Custom_found custom_docker_tag (registry_name e)) s))
              (\<lambda>found_custom_platforms s.
                 let s = log_info (Custom_platforms found_custom_platforms) s
                 in if has_all_required found_custom_platforms
                    then (Inr True, log_info (Custom_complete (registry_name e)) s)
                    else (Inr False,
                          log_info (Custom_missing (registry_name e)
                                      (required_platforms_missing found_custom_platforms)) s))
          else (Inr False, log_info (Custom_not_found custom_docker_tag (registry_name e)) s))"

text \<open>
  Lines 257 to 270: the first lines printed, and the two checks of the configuration.
\<close>

definition startup :: "env \<Rightarrow> state \<Rightarrow> (exc + unit) \<times> state" where
  "startup e s =
     (let s = log_info Starting s;
          s = log_info (Using_registry (str_upper e (CUSTOM_REGISTRY e))) s
      in if REQUIRED_PLATFORMS = {} then (Inl (SystemExit 1), log_error Config_no_platforms s)
         else if CUSTOM_REGISTRY e \<notin> {''dockerhub'', ''ghcr''}
         then (Inl (SystemExit 1), log_error (Config_bad_registry (CUSTOM_REGISTRY e)) s)
         else (Inr (), log_info (Required_platforms_are REQUIRED_PLATFORMS) s))"

text \<open>
  \<^verbatim>\<open>main\<close>. \<open>Inr ()\<close> is the run that reaches the end of \<^verbatim>\<open>main\<close>; the run that
  stops at line 300 ends in \<open>SystemExit 0\<close>.
\<close>

definition main :: "env \<Rightarrow> state \<Rightarrow> (exc + unit) \<times> state" where
  "main e s =
     (let github_token = environ e ''GITHUB_TOKEN''
      in and_then (startup e s)
           (\<lambda>u s.
              and_then (get_latest_caddy_release e github_token s)
                (\<lambda>latest_gh_tag s.
                   let official_docker_tag = lstrip_v latest_gh_tag;
                       custom_docker_tag = CUSTOM_TAG_PREFIX @ official_docker_tag
                   in and_then (check_official e official_docker_tag s)
                        (\<lambda>official_image_ready s.
                           if \<not> official_image_ready then
                             and_then
                               (set_action_output e ''NEEDS_BUILD'' ''false''
                                  (log_info Result_not_ready s))
                               (\<lambda>u s.
                                  and_then
                                    (set_action_output e ''LATEST_VERSION'' latest_gh_tag s)
                                    (\<lambda>u s. (Inl (SystemExit 0), s)))
                           else
                             and_then (check_custom e custom_docker_tag github_token s)
                               (\<lambda>custom_image_complete s.
                                  let needs_build = \<not> custom_image_complete;
                                      s = log_info (Final_decision latest_gh_tag needs_build) s
                                  in and_then
                                       (set_action_output e ''NEEDS_BUILD''
                                          (if needs_build then ''true'' else ''false'') s)
                                       (\<lambda>u s.
                                          and_then
                                            (set_action_output e ''LATEST_VERSION''
                                               latest_gh_tag s)
                                            (\<lambda>u s. (Inr (), log_info Finished s))))))))"


section \<open>The specification's notions\<close>

text \<open>
  The specification's platform identifier of an entry: \<open>linux/arm/v7\<close> for the
  architecture \<open>arm\<close> with the variant \<open>v7\<close>, and the pair of operating system and
  architecture otherwise.
\<close>

definition normalized_platform :: "(string \<times> json) list \<Rightarrow> string" where
  "normalized_platform entry =
     (if dict_get entry ''architecture'' = JStr ''arm'' \<and> dict_get entry ''variant'' = JStr ''v7''
      then ''linux/arm/v7''
      else ''linux/'' @ py_str (dict_get entry ''architecture''))"

text \<open>Only the entries with the operating system \<open>linux\<close> are considered.\<close>

definition published_platform :: "json \<Rightarrow> string option" where
  "published_platform img =
     (case img of
        JObj entry \<Rightarrow>
          if dict_get entry ''os'' = JStr ''linux'' then Some (normalized_platform entry) else None
      | _ \<Rightarrow> None)"

text \<open>The published set of a list of entries.\<close>

definition published_platforms :: "json list \<Rightarrow> string set" where
  "published_platforms imgs = set (List.map_filter published_platform imgs)"

section \<open>Example inputs\<close>

definition init_state :: state where
  "init_state = \<lparr>trace = [], log = [], out_file = [], opens = 0, uuids_drawn = 0\<rparr>"

definition linux_entry :: "string \<Rightarrow> json" where
  "linux_entry arch = JObj [(''os'', JStr ''linux''), (''architecture'', JStr arch)]"

definition complete_tag :: json where
  "complete_tag =
     JObj [(''name'', JStr ''2.8.4''),
           (''images'', JArr [linux_entry ''amd64'', linux_entry ''386'', linux_entry ''arm64'',
                             linux_entry ''amd64''])]"

definition amd64_only_tag :: json where
  "amd64_only_tag = JObj [(''images'', JArr [linux_entry ''386'', linux_entry ''amd64''])]"

section \<open>Notions for the statements\<close>

text \<open>
  The specification's states of a checked image: absent, present without every
  required platform, present with every required platform. The value is the one that a
  registry check returned; the extraction can raise.
\<close>

datatype image_state = ABSENT | PRESENT_INCOMPLETE | PRESENT_COMPLETE

definition image_status :: "json \<Rightarrow> exc + image_state" where
  "image_status tag_data =
     (if \<not> truthy tag_data then Inr ABSENT
      else case fst (get_platforms_from_tag_data tag_data init_state) of
             Inl x \<Rightarrow> Inl x
           | Inr found \<Rightarrow>
               Inr (if REQUIRED_PLATFORMS \<subseteq> found then PRESENT_COMPLETE else PRESENT_INCOMPLETE))"

text \<open>The request that \<open>get_latest_caddy_release\<close> sends, for a token.\<close>

definition release_request :: "string option \<Rightarrow> request" where
  "release_request token =
     Get release_url (case token of Some t \<Rightarrow> if t \<noteq> [] then [bearer t] else [] | None \<Rightarrow> [])
         30"

text \<open>The request that \<open>check_docker_hub_tag\<close> sends.\<close>

definition hub_request :: "string \<Rightarrow> string \<Rightarrow> request" where
  "hub_request image_name tag =
     Get (hub_tag_url image_name tag) [] 45"

text \<open>The two requests of \<open>check_ghcr_tag\<close>: the token exchange and the manifest.\<close>

definition token_request :: "string \<Rightarrow> string \<Rightarrow> request" where
  "token_request image_name t =
     Get (ghcr_token_url image_name) [bearer t] 30"

definition manifest_request :: "string \<Rightarrow> string \<Rightarrow> string \<Rightarrow> request" where
  "manifest_request image_name tag registry_token =
     Get (ghcr_manifest_url image_name tag) [bearer registry_token, accept_index] 45"

text \<open>A call keeps the output file when it neither writes to it nor draws a uuid.\<close>

definition keeps_output :: "state \<Rightarrow> state \<Rightarrow> bool" where
  "keeps_output s s' \<longleftrightarrow>
     out_file s' = out_file s \<and> opens s' = opens s \<and> uuids_drawn s' = uuids_drawn s"

text \<open>
  An entry of the output file, as the specification describes the sink: a line
  \<open>KEY=value\<close>, or for a value of several lines a block \<open>KEY<<DELIM\<close>, payload,
  \<open>DELIM\<close>.
\<close>

definition sink_entry :: "string \<Rightarrow> string \<Rightarrow> string \<Rightarrow> string" where
  "sink_entry key v delimiter =
     (if CHR 0x0A \<in> set v
      then key @ ''<<'' @ delimiter @ newline @ v @ newline @ delimiter @ newline
      else key @ ''='' @ v @ newline)"

text \<open>The delimiter that a call of \<open>set_action_output\<close> in a state would use.\<close>

definition next_delimiter :: "env \<Rightarrow> state \<Rightarrow> string" where
  "next_delimiter e s = ''ghadelimiter_'' @ uuid4 e (uuids_drawn s)"

text \<open>The printed lines that announce a decision: those of lines 297 and 330.\<close>

fun decision_line :: "log_entry \<Rightarrow> bool" where
  "decision_line (Info (Final_decision tag needs_build)) = True"
| "decision_line (Info Result_not_ready) = True"
| "decision_line other = False"

text \<open>The decisions printed so far, and the calls that print none.\<close>

definition decisions :: "state \<Rightarrow> log_entry list" where
  "decisions s = filter decision_line (log s)"

definition same_decisions :: "state \<Rightarrow> state \<Rightarrow> bool" where
  "same_decisions s s' \<longleftrightarrow> decisions s' = decisions s"

section \<open>Example runs\<close>

text \<open>
  An environment with the given variables (of ASCII characters), in which the requests
  are answered in turn by the given answers, the output file can be opened, and every
  call of \<^verbatim>\<open>uuid4\<close> returns the same value.
\<close>

definition example_uuid :: string where
  "example_uuid = ''123e4567-e89b-42d3-a456-426614174000''"

definition run_env :: "(string \<Rightarrow> string option) \<Rightarrow> http_result list \<Rightarrow> env" where
  "run_env vars answers =
     \<lparr>environ = vars,
      str_lower = ascii_lower,
      str_upper = ascii_upper,
      http_get = (\<lambda>n req. if n < length answers then answers ! n else RequestException),
      open_ok = (\<lambda>n path. True),
      uuid4 = (\<lambda>n. example_uuid)\<rparr>"

definition release_answer :: http_result where
  "release_answer = Response 200 (Some (JObj [(''tag_name'', JStr ''v2.8.4'')]))"

definition index_manifest :: json where
  "index_manifest =
     JObj [(''mediaType'', JStr ''application/vnd.oci.image.index.v1+json''),
           (''manifests'',
            JArr [JObj [(''platform'', linux_entry ''amd64'')],
                  JObj [(''platform'', linux_entry ''arm64'')]])]"

definition with_output :: "string \<Rightarrow> string option" where
  "with_output = [''GITHUB_OUTPUT'' \<mapsto> ''/tmp/out'']"

definition with_output_and_token :: "string \<Rightarrow> string option" where
  "with_output_and_token = [''GITHUB_OUTPUT'' \<mapsto> ''/tmp/out'', ''GITHUB_TOKEN'' \<mapsto> ''t0k'']"

definition with_token :: "string \<Rightarrow> string option" where
  "with_token = [''GITHUB_TOKEN'' \<mapsto> ''t0k'']"

definition hub_registry :: "string \<Rightarrow> string option" where
  "hub_registry = [''CUSTOM_REGISTRY'' \<mapsto> ''DockerHub'']"

text \<open>A value of two lines whose second line is the delimiter that the next call draws.\<close>

definition colliding_value :: string where
  "colliding_value = ''a'' @ newline @ ''ghadelimiter_'' @ example_uuid"

text \<open>
  Runs from the initial state: the states after the release lookup, after the check of
  the official image, and after the check of the custom image.
\<close>

definition after_release :: "env \<Rightarrow> state" where
  "after_release e = snd (get_latest_caddy_release e (environ e ''GITHUB_TOKEN'') init_state)"

definition after_official :: "env \<Rightarrow> state" where
  "after_official e =
     snd (check_docker_hub_tag e OFFICIAL_CADDY_IMAGE ''2.8.4'' (after_release e))"

definition after_custom :: "env \<Rightarrow> state" where
  "after_custom e =
     snd (lookup_custom e ''2.8.4'' (environ e ''GITHUB_TOKEN'') (after_official e))"

text \<open>
  The answers of three runs: the official tag is missing; the official image is
  complete and so is the custom one on GHCR, where the token exchange is refused; the
  release has a tag without the leading \<open>v\<close>.
\<close>

definition not_ready_answers :: "http_result list" where
  "not_ready_answers = [release_answer, Response 404 None]"

definition ready_answers :: "http_result list" where
  "ready_answers =
     [release_answer, Response 200 (Some complete_tag), Response 403 None,
      Response 200 (Some index_manifest)]"

definition bad_release_answers :: "http_result list" where
  "bad_release_answers = [Response 200 (Some (JObj [(''tag_name'', JStr ''2.8.4'')]))]"

section \<open>Platform extraction\<close>

lemma py_str_JStr: "py_str (JStr s) = s"
  by (simp add: py_str_def)

lemma falsy_not_required: "\<not> truthy v \<Longrightarrow> ''linux/'' @ py_str v \<notin> REQUIRED_PLATFORMS"
  by (cases v) (simp_all add: py_str_def REQUIRED_PLATFORMS_def str_of_int_def)

lemma published_platforms_iff:
  "p \<in> published_platforms imgs \<longleftrightarrow> (\<exists>img \<in> set imgs. published_platform img = Some p)"
  by (force simp: published_platforms_def List.map_filter_def)

lemma published_platforms_Cons:
  "published_platforms (img # imgs) = published_platforms [img] \<union> published_platforms imgs"
  by (auto simp: published_platforms_iff)

lemma published_platforms_cong:
  "set imgs = set imgs' \<Longrightarrow> published_platforms imgs = published_platforms imgs'"
  by (auto simp: published_platforms_iff)

lemma add_platform_eq:
  "add_platform img acc = acc \<union> (published_platforms [img] \<inter> REQUIRED_PLATFORMS)"
proof (cases img)
  case (JObj entry)
  show ?thesis
  proof (cases "dict_get entry ''os'' = JStr ''linux''")
    case False
    with JObj show ?thesis
      by (auto simp: add_platform_def published_platforms_iff published_platform_def Let_def)
  next
    case True
    let ?arch = "dict_get entry ''architecture''"
    let ?variant = "dict_get entry ''variant''"
    have same_test: "platform_str (JStr ''linux'') ?arch ?variant \<in> REQUIRED_PLATFORMS
                     \<longleftrightarrow> normalized_platform entry \<in> REQUIRED_PLATFORMS"
      by (auto simp: platform_str_def normalized_platform_def py_str_JStr REQUIRED_PLATFORMS_def
               split: if_splits)
    have same_str: "normalized_platform entry \<in> REQUIRED_PLATFORMS \<Longrightarrow>
                    platform_str (JStr ''linux'') ?arch ?variant = normalized_platform entry"
      by (auto simp: platform_str_def normalized_platform_def py_str_JStr REQUIRED_PLATFORMS_def
               split: if_splits)
    have pub: "published_platforms [JObj entry] = {normalized_platform entry}"
      using True by (auto simp: published_platforms_iff published_platform_def)
    have no_arch: "\<not> truthy ?arch \<Longrightarrow> normalized_platform entry \<notin> REQUIRED_PLATFORMS"
      using falsy_not_required[of ?arch]
      by (auto simp: normalized_platform_def REQUIRED_PLATFORMS_def)
    show ?thesis
      using JObj True same_test same_str no_arch
      by (auto simp: add_platform_def Let_def pub)
  qed
qed (auto simp: add_platform_def published_platforms_iff published_platform_def)

lemma fold_add_platform:
  "fold add_platform imgs acc = acc \<union> (published_platforms imgs \<inter> REQUIRED_PLATFORMS)"
proof (induction imgs arbitrary: acc)
  case Nil
  then show ?case by (simp add: published_platforms_def List.map_filter_def)
next
  case (Cons img imgs)
  have "fold add_platform (img # imgs) acc = fold add_platform imgs (add_platform img acc)"
    by simp
  also have "\<dots> = add_platform img acc \<union> (published_platforms imgs \<inter> REQUIRED_PLATFORMS)"
    by (rule Cons.IH)
  also have "\<dots> = acc \<union> (published_platforms (img # imgs) \<inter> REQUIRED_PLATFORMS)"
    by (auto simp: add_platform_eq published_platforms_Cons[of img imgs])
  finally show ?case .
qed

lemma get_platforms_images:
  assumes "map_of tag_data ''images'' = Some (JArr imgs)"
  shows "get_platforms_from_tag_data (JObj tag_data) s
         = (Inr (published_platforms imgs \<inter> REQUIRED_PLATFORMS), s)"
proof -
  from assms have "tag_data \<noteq> []" by auto
  with assms show ?thesis
    by (simp add: get_platforms_from_tag_data_def fold_add_platform)
qed

lemma has_all_required_iff: "has_all_required found \<longleftrightarrow> REQUIRED_PLATFORMS \<subseteq> found"
  by (auto simp: has_all_required_def required_platforms_missing_def)

text \<open>
  C2. On a tag descriptor whose \<open>images\<close> entry is a list,
  \<open>get_platforms_from_tag_data\<close> returns the published set of the list (the normalized
  platforms of its linux entries) intersected with the required set, and changes
  nothing else; two lists with the same entries, in any order and number, give the same
  result.
\<close>

theorem get_platforms_is_intersection:
  "(map_of tag_data ''images'' = Some (JArr imgs) \<longrightarrow>
      get_platforms_from_tag_data (JObj tag_data) s
        = (Inr (published_platforms imgs \<inter> REQUIRED_PLATFORMS), s))
   \<and> (map_of tag_data ''images'' = Some (JArr imgs) \<longrightarrow>
      map_of tag_data' ''images'' = Some (JArr imgs') \<longrightarrow> set imgs = set imgs' \<longrightarrow>
      get_platforms_from_tag_data (JObj tag_data) s
        = get_platforms_from_tag_data (JObj tag_data') s)"
  using published_platforms_cong[of imgs imgs']
  by (auto simp: get_platforms_images)

theorem get_platforms_is_intersection_witness:
  "map_of [(''images'', JArr [linux_entry ''386'', linux_entry ''amd64''])] ''images''
     = Some (JArr [linux_entry ''386'', linux_entry ''amd64''])
   \<and> map_of [(''images'', JArr [linux_entry ''amd64'', linux_entry ''386'', linux_entry ''amd64''])]
        ''images''
     = Some (JArr [linux_entry ''amd64'', linux_entry ''386'', linux_entry ''amd64''])
   \<and> set [linux_entry ''386'', linux_entry ''amd64'']
     = set [linux_entry ''amd64'', linux_entry ''386'', linux_entry ''amd64'']
   \<and> get_platforms_from_tag_data amd64_only_tag init_state = (Inr {''linux/amd64''}, init_state)
   \<and> get_platforms_from_tag_data
        (JObj [(''images'', JArr [linux_entry ''amd64'', linux_entry ''386'', linux_entry ''amd64''])])
        init_state
     = (Inr {''linux/amd64''}, init_state)"
proof -
  have pub: "published_platforms [linux_entry ''386'', linux_entry ''amd64'']
               \<inter> REQUIRED_PLATFORMS = {''linux/amd64''}"
    by (simp add: published_platforms_def List.map_filter_def published_platform_def
          linux_entry_def normalized_platform_def dict_get_def py_str_def REQUIRED_PLATFORMS_def)
  show ?thesis
    using get_platforms_is_intersection
            [of "[(''images'', JArr [linux_entry ''386'', linux_entry ''amd64''])]"
                "[linux_entry ''386'', linux_entry ''amd64'']" init_state
                "[(''images'', JArr [linux_entry ''amd64'', linux_entry ''386'',
                                     linux_entry ''amd64''])]"
                "[linux_entry ''amd64'', linux_entry ''386'', linux_entry ''amd64'']"]
    by (auto simp: pub amd64_only_tag_def)
qed

text \<open>
  C4. The platform string of a linux entry with the architecture \<open>arm\<close> and the variant
  \<open>v7\<close> is \<open>linux/arm/v7\<close>; with \<open>arm\<close> and any other variant, or none, it is not
  \<open>linux/arm/v7\<close>; for every other architecture it is the pair of operating system and
  architecture when that is a required platform, and empty otherwise, whatever the
  variant.
\<close>

theorem arm_v7_is_distinct:
  "platform_str (JStr ''linux'') (JStr ''arm'') (JStr ''v7'') = ''linux/arm/v7''
   \<and> platform_str (JStr ''linux'') (JStr ''arm'') (JStr ''v7'') \<noteq> ''linux/arm''
   \<and> (variant \<noteq> JStr ''v7'' \<longrightarrow>
        platform_str (JStr ''linux'') (JStr ''arm'') variant \<noteq> ''linux/arm/v7'')
   \<and> (arch \<noteq> JStr ''arm'' \<longrightarrow>
        platform_str os_name arch variant
          = (if py_str os_name @ ''/'' @ py_str arch \<in> REQUIRED_PLATFORMS
             then py_str os_name @ ''/'' @ py_str arch else [])
        \<and> platform_str os_name arch variant = platform_str os_name arch variant')"
  by (simp add: platform_str_def py_str_JStr REQUIRED_PLATFORMS_def)

theorem arm_v7_is_distinct_witness:
  "JNull \<noteq> JStr ''v7''
   \<and> platform_str (JStr ''linux'') (JStr ''arm'') JNull \<noteq> ''linux/arm/v7''
   \<and> JStr ''arm64'' \<noteq> JStr ''arm''
   \<and> platform_str (JStr ''linux'') (JStr ''arm64'') JNull = ''linux/arm64''
   \<and> platform_str (JStr ''linux'') (JStr ''arm64'') JNull
       = platform_str (JStr ''linux'') (JStr ''arm64'') (JStr ''v8'')"
  using arm_v7_is_distinct[of JNull "JStr ''arm64''" "JStr ''linux''" "JStr ''v8''"]
  by (auto simp: py_str_JStr REQUIRED_PLATFORMS_def)

section \<open>What the calls leave unchanged\<close>

lemma keeps_output_refl [simp]: "keeps_output s s"
  by (simp add: keeps_output_def)

lemma keeps_output_trans: "keeps_output s s' \<Longrightarrow> keeps_output s' s'' \<Longrightarrow> keeps_output s s''"
  by (simp add: keeps_output_def)

lemma keeps_output_log_info [simp]: "keeps_output s (log_info m s') = keeps_output s s'"
  by (simp add: keeps_output_def log_info_def)

lemma keeps_output_log_error [simp]: "keeps_output s (log_error m s') = keeps_output s s'"
  by (simp add: keeps_output_def log_error_def)

lemma keeps_output_from_log_info [simp]: "keeps_output (log_info m s) s' = keeps_output s s'"
  by (simp add: keeps_output_def log_info_def)

lemma keeps_output_trace [simp]: "keeps_output s (s'\<lparr>trace := t\<rparr>) = keeps_output s s'"
  by (simp add: keeps_output_def)

lemma trace_log_info [simp]: "trace (log_info m s) = trace s"
  by (simp add: log_info_def)

lemma trace_log_error [simp]: "trace (log_error m s) = trace s"
  by (simp add: log_error_def)

lemma and_then_Inr: "p = (Inr v, s) \<Longrightarrow> and_then p f = f v s"
  by simp

lemma and_then_Inl: "p = (Inl x, s) \<Longrightarrow> and_then p f = (Inl x, s)"
  by simp

lemma keeps_output_step:
  "keeps_output s s1 \<Longrightarrow> keeps_output s1 s2 \<Longrightarrow> keeps_output s s2"
  by (rule keeps_output_trans)

lemma read_release_keeps:
  "keeps_output s s1 \<Longrightarrow> keeps_output s (snd (read_release response s1))"
  by (simp add: read_release_def Let_def split: http_result.splits option.splits)

lemma read_release_trace: "trace (snd (read_release response s)) = trace s"
  by (simp add: read_release_def Let_def split: http_result.splits option.splits)

lemma get_latest_keeps:
  "keeps_output s s1 \<Longrightarrow> keeps_output s (snd (get_latest_caddy_release e tok s1))"
  by (simp add: get_latest_caddy_release_def requests_get_def Let_def read_release_keeps
           split: option.splits)

lemma get_latest_trace:
  "trace (snd (get_latest_caddy_release e tok s)) = trace s @ [release_request tok]"
  by (simp add: get_latest_caddy_release_def requests_get_def release_request_def Let_def
        read_release_trace split: option.splits)

lemma hub_keeps:
  "keeps_output s s1 \<Longrightarrow> keeps_output s (snd (check_docker_hub_tag e i t s1))"
  by (simp add: check_docker_hub_tag_def requests_get_def Let_def
           split: http_result.splits option.splits)

lemma hub_trace:
  "trace (snd (check_docker_hub_tag e i t s)) = trace s @ [hub_request i t]"
  by (simp add: check_docker_hub_tag_def requests_get_def hub_request_def Let_def
           split: http_result.splits option.splits)

lemma get_platforms_keeps:
  "keeps_output s s1 \<Longrightarrow> keeps_output s (snd (get_platforms_from_tag_data d s1))"
  by (simp add: get_platforms_from_tag_data_def split: json.splits option.splits)

lemma get_platforms_trace: "trace (snd (get_platforms_from_tag_data d s)) = trace s"
  by (simp add: get_platforms_from_tag_data_def split: json.splits option.splits)

lemma multi_arch_keeps:
  "keeps_output s s1 \<Longrightarrow> keeps_output s (snd (multi_arch_manifest m s1))"
  by (simp add: multi_arch_manifest_def split: sum.splits)

lemma read_config_keeps:
  "keeps_output s s1 \<Longrightarrow> keeps_output s (snd (read_config i t r s1))"
  by (simp add: read_config_def split: http_result.splits option.splits)

lemma single_arch_keeps:
  "keeps_output s s1 \<Longrightarrow> keeps_output s (snd (single_arch_manifest e i t r m s1))"
  by (simp add: single_arch_manifest_def requests_get_def Let_def read_config_keeps
           split: option.splits)

lemma read_manifest_keeps:
  "keeps_output s s1 \<Longrightarrow> keeps_output s (snd (read_manifest e i t r response s1))"
  by (simp add: read_manifest_def multi_arch_keeps single_arch_keeps
           split: http_result.splits option.splits)

lemma fetch_manifest_keeps:
  "keeps_output s s1 \<Longrightarrow> keeps_output s (snd (fetch_manifest e i t r s1))"
  by (simp add: fetch_manifest_def requests_get_def Let_def read_manifest_keeps)

lemma registry_token_keeps:
  "keeps_output s s1 \<Longrightarrow> keeps_output s (snd (registry_token_of t r s1))"
  by (simp add: registry_token_of_def split: http_result.splits option.splits)

lemma check_ghcr_keeps:
  "keeps_output s s1 \<Longrightarrow> keeps_output s (snd (check_ghcr_tag e i t tok s1))"
  by (simp add: check_ghcr_tag_def requests_get_def Let_def case_prod_beta
        fetch_manifest_keeps registry_token_keeps split: option.splits)

lemma startup_keeps: "keeps_output s s1 \<Longrightarrow> keeps_output s (snd (startup e s1))"
  by (simp add: startup_def Let_def)

lemma startup_trace: "trace (snd (startup e s)) = trace s"
  by (simp add: startup_def Let_def)

lemma and_then_keeps:
  assumes "keeps_output s (snd p)"
      and "\<And>v. keeps_output s (snd (f v (snd p)))"
  shows "keeps_output s (snd (and_then p f))"
  using assms by (cases p; cases "fst p") auto

lemma check_official_keeps:
  "keeps_output s s1 \<Longrightarrow> keeps_output s (snd (check_official e t s1))"
  unfolding check_official_def
  by (auto intro!: and_then_keeps hub_keeps get_platforms_keeps simp: Let_def)

lemma check_official_trace:
  "trace (snd (check_official e t s)) = trace s @ [hub_request OFFICIAL_CADDY_IMAGE t]"
proof -
  obtain r s1 where hub: "check_docker_hub_tag e OFFICIAL_CADDY_IMAGE t
                            (log_info (Step1 OFFICIAL_CADDY_IMAGE t) s) = (r, s1)"
    by force
  have s1: "trace s1 = trace s @ [hub_request OFFICIAL_CADDY_IMAGE t]"
    using hub_trace[of e OFFICIAL_CADDY_IMAGE t "log_info (Step1 OFFICIAL_CADDY_IMAGE t) s"]
    by (simp add: hub)
  have r: "r = Inr (projr r)"
    using hub
    by (auto simp: check_docker_hub_tag_def requests_get_def Let_def
             split: http_result.splits option.splits if_splits)
  obtain f s2 where gp: "get_platforms_from_tag_data (projr r)
                           (log_info (Official_tag_found t) s1) = (f, s2)"
    by force
  have s2: "trace s2 = trace s1"
    using get_platforms_trace[of "projr r" "log_info (Official_tag_found t) s1"]
    by (simp add: gp)
  show ?thesis
    unfolding check_official_def hub
    by (subst r, cases f) (simp_all add: gp s1 s2 Let_def)
qed

lemma lookup_custom_keeps:
  "keeps_output s s1 \<Longrightarrow> keeps_output s (snd (lookup_custom e t tok s1))"
  by (simp add: lookup_custom_def hub_keeps check_ghcr_keeps)

lemma check_custom_keeps:
  assumes "keeps_output s s1"
  shows "keeps_output s (snd (check_custom e t tok s1))"
  unfolding check_custom_def
proof (rule and_then_keeps)
  let ?s2 = "snd (lookup_custom e t tok
                    (log_info (Step2 (CUSTOM_IMAGE e) t (str_upper e (CUSTOM_REGISTRY e))) s1))"
  show k2: "keeps_output s ?s2"
    using assms by (simp add: lookup_custom_keeps)
  fix v
  show "keeps_output s
          (snd ((\<lambda>custom_tag_data s.
                   if truthy custom_tag_data then
                     and_then
                       (get_platforms_from_tag_data custom_tag_data
                          (log_info (Custom_found t (registry_name e)) s))
                       (\<lambda>found_custom_platforms s.
                          let s = log_info (Custom_platforms found_custom_platforms) s
                          in if has_all_required found_custom_platforms
                             then (Inr True, log_info (Custom_complete (registry_name e)) s)
                             else (Inr False,
                                   log_info (Custom_missing (registry_name e)
                                               (required_platforms_missing
                                                  found_custom_platforms)) s))
                   else (Inr False, log_info (Custom_not_found t (registry_name e)) s))
                v ?s2))"
  proof (cases "truthy v")
    case False
    then show ?thesis using k2 by simp
  next
    case True
    have "keeps_output s
            (snd (get_platforms_from_tag_data v (log_info (Custom_found t (registry_name e)) ?s2)))"
      using k2 by (simp add: get_platforms_keeps)
    then show ?thesis
      using True by (simp only: if_True) (rule and_then_keeps, simp_all add: Let_def)
  qed
qed

section \<open>The calls that print no decision\<close>

lemma same_decisions_refl [simp]: "same_decisions s s"
  by (simp add: same_decisions_def)

lemma same_decisions_log_info [simp]:
  "\<not> decision_line (Info m) \<Longrightarrow> same_decisions s (log_info m s') = same_decisions s s'"
  by (simp add: same_decisions_def decisions_def log_info_def)

lemma same_decisions_log_error [simp]: "same_decisions s (log_error m s') = same_decisions s s'"
  by (simp add: same_decisions_def decisions_def log_error_def)

lemma same_decisions_trace [simp]: "same_decisions s (s'\<lparr>trace := t\<rparr>) = same_decisions s s'"
  by (simp add: same_decisions_def decisions_def)

lemma read_release_silent:
  "same_decisions s s1 \<Longrightarrow> same_decisions s (snd (read_release response s1))"
  by (simp add: read_release_def Let_def split: http_result.splits option.splits)

lemma get_latest_silent:
  "same_decisions s s1 \<Longrightarrow> same_decisions s (snd (get_latest_caddy_release e tok s1))"
  by (simp add: get_latest_caddy_release_def requests_get_def Let_def read_release_silent
           split: option.splits)

lemma hub_silent:
  "same_decisions s s1 \<Longrightarrow> same_decisions s (snd (check_docker_hub_tag e i t s1))"
  by (simp add: check_docker_hub_tag_def requests_get_def Let_def
           split: http_result.splits option.splits)

lemma get_platforms_silent:
  "same_decisions s s1 \<Longrightarrow> same_decisions s (snd (get_platforms_from_tag_data d s1))"
  by (simp add: get_platforms_from_tag_data_def split: json.splits option.splits)

lemma multi_arch_silent:
  "same_decisions s s1 \<Longrightarrow> same_decisions s (snd (multi_arch_manifest m s1))"
  by (simp add: multi_arch_manifest_def split: sum.splits)

lemma read_config_silent:
  "same_decisions s s1 \<Longrightarrow> same_decisions s (snd (read_config i t r s1))"
  by (simp add: read_config_def split: http_result.splits option.splits)

lemma single_arch_silent:
  "same_decisions s s1 \<Longrightarrow> same_decisions s (snd (single_arch_manifest e i t r m s1))"
  by (simp add: single_arch_manifest_def requests_get_def Let_def read_config_silent
           split: option.splits)

lemma read_manifest_silent:
  "same_decisions s s1 \<Longrightarrow> same_decisions s (snd (read_manifest e i t r response s1))"
  by (simp add: read_manifest_def multi_arch_silent single_arch_silent
           split: http_result.splits option.splits)

lemma fetch_manifest_silent:
  "same_decisions s s1 \<Longrightarrow> same_decisions s (snd (fetch_manifest e i t r s1))"
  by (simp add: fetch_manifest_def requests_get_def Let_def read_manifest_silent)

lemma registry_token_silent:
  "same_decisions s s1 \<Longrightarrow> same_decisions s (snd (registry_token_of t r s1))"
  by (simp add: registry_token_of_def split: http_result.splits option.splits)

lemma check_ghcr_silent:
  "same_decisions s s1 \<Longrightarrow> same_decisions s (snd (check_ghcr_tag e i t tok s1))"
  by (simp add: check_ghcr_tag_def requests_get_def Let_def case_prod_beta
        fetch_manifest_silent registry_token_silent split: option.splits)

lemma startup_silent: "same_decisions s s1 \<Longrightarrow> same_decisions s (snd (startup e s1))"
  by (simp add: startup_def Let_def)

lemma and_then_silent:
  assumes "same_decisions s (snd p)"
      and "\<And>v. same_decisions s (snd (f v (snd p)))"
  shows "same_decisions s (snd (and_then p f))"
  using assms by (cases p; cases "fst p") auto

lemma check_official_silent:
  "same_decisions s s1 \<Longrightarrow> same_decisions s (snd (check_official e t s1))"
  unfolding check_official_def
  by (auto intro!: and_then_silent hub_silent get_platforms_silent simp: Let_def)

lemma lookup_custom_silent:
  "same_decisions s s1 \<Longrightarrow> same_decisions s (snd (lookup_custom e t tok s1))"
  by (simp add: lookup_custom_def hub_silent check_ghcr_silent)

lemma check_custom_silent:
  assumes "same_decisions s s1"
  shows "same_decisions s (snd (check_custom e t tok s1))"
  unfolding check_custom_def
proof (rule and_then_silent)
  let ?s2 = "snd (lookup_custom e t tok
                    (log_info (Step2 (CUSTOM_IMAGE e) t (str_upper e (CUSTOM_REGISTRY e))) s1))"
  show k2: "same_decisions s ?s2"
    using assms by (simp add: lookup_custom_silent)
  fix v
  show "same_decisions s
          (snd ((\<lambda>custom_tag_data s.
                   if truthy custom_tag_data then
                     and_then
                       (get_platforms_from_tag_data custom_tag_data
                          (log_info (Custom_found t (registry_name e)) s))
                       (\<lambda>found_custom_platforms s.
                          let s = log_info (Custom_platforms found_custom_platforms) s
                          in if has_all_required found_custom_platforms
                             then (Inr True, log_info (Custom_complete (registry_name e)) s)
                             else (Inr False,
                                   log_info (Custom_missing (registry_name e)
                                               (required_platforms_missing
                                                  found_custom_platforms)) s))
                   else (Inr False, log_info (Custom_not_found t (registry_name e)) s))
                v ?s2))"
  proof (cases "truthy v")
    case False
    then show ?thesis using k2 by simp
  next
    case True
    have "same_decisions s
            (snd (get_platforms_from_tag_data v (log_info (Custom_found t (registry_name e)) ?s2)))"
      using k2 by (simp add: get_platforms_silent)
    then show ?thesis
      using True by (simp only: if_True) (rule and_then_silent, simp_all add: Let_def)
  qed
qed


section \<open>What the results depend on\<close>

text \<open>
  The value that a call returns depends on the state through the number of requests
  sent so far only.
\<close>

lemma read_release_fst: "fst (read_release r s) = fst (read_release r s')"
  by (cases r) (auto simp: read_release_def Let_def split: option.splits)

lemma get_latest_fst:
  "length (trace s) = length (trace s') \<Longrightarrow>
   fst (get_latest_caddy_release e tok s) = fst (get_latest_caddy_release e tok s')"
  by (auto simp: get_latest_caddy_release_def requests_get_def Let_def
           intro: read_release_fst split: option.splits)

lemma hub_fst:
  "length (trace s) = length (trace s') \<Longrightarrow>
   fst (check_docker_hub_tag e i t s) = fst (check_docker_hub_tag e i t s')"
  by (cases "http_get e (length (trace s')) (Get (hub_tag_url i t) [] 45)")
     (auto simp: check_docker_hub_tag_def requests_get_def Let_def split: option.splits)

lemma get_platforms_fst:
  "fst (get_platforms_from_tag_data d s) = fst (get_platforms_from_tag_data d s')"
  by (cases d) (auto simp: get_platforms_from_tag_data_def split: json.splits option.splits)

lemma multi_arch_fst: "fst (multi_arch_manifest m s) = fst (multi_arch_manifest m s')"
  by (auto simp: multi_arch_manifest_def split: sum.splits)

lemma read_config_fst: "fst (read_config i t r s) = fst (read_config i t r s')"
  by (cases r) (auto simp: read_config_def split: option.splits)

lemma single_arch_fst:
  "length (trace s) = length (trace s') \<Longrightarrow>
   fst (single_arch_manifest e i t r m s) = fst (single_arch_manifest e i t r m s')"
  by (auto simp: single_arch_manifest_def requests_get_def Let_def
           intro: read_config_fst split: option.splits)

lemma read_manifest_fst:
  "length (trace s) = length (trace s') \<Longrightarrow>
   fst (read_manifest e i t r response s) = fst (read_manifest e i t r response s')"
  by (cases response)
     (auto simp: read_manifest_def intro: multi_arch_fst single_arch_fst split: option.splits)

lemma fetch_manifest_fst:
  "length (trace s) = length (trace s') \<Longrightarrow>
   fst (fetch_manifest e i t r s) = fst (fetch_manifest e i t r s')"
  by (auto simp: fetch_manifest_def requests_get_def Let_def intro: read_manifest_fst)

lemma registry_token_fst: "fst (registry_token_of t r s) = fst (registry_token_of t r s')"
  by (cases r) (auto simp: registry_token_of_def split: option.splits)

lemma registry_token_trace: "trace (snd (registry_token_of t r s)) = trace s"
  by (simp add: registry_token_of_def split: http_result.splits option.splits)

lemma check_ghcr_fst:
  assumes "length (trace s) = length (trace s')"
  shows "fst (check_ghcr_tag e i t tok s) = fst (check_ghcr_tag e i t tok s')"
proof (cases "\<exists>tk. tok = Some tk \<and> tk \<noteq> []")
  case False
  then show ?thesis by (auto simp: check_ghcr_tag_def split: option.splits)
next
  case True
  then obtain tk where tok: "tok = Some tk" "tk \<noteq> []" by blast
  let ?req = "Get (ghcr_token_url i) [bearer tk] 30"
  let ?r = "http_get e (length (trace s')) ?req"
  let ?p = "registry_token_of tk ?r (s\<lparr>trace := trace s @ [?req]\<rparr>)"
  let ?p' = "registry_token_of tk ?r (s'\<lparr>trace := trace s' @ [?req]\<rparr>)"
  have tokens: "fst ?p = fst ?p'" by (rule registry_token_fst)
  have "length (trace (snd ?p)) = length (trace (snd ?p'))"
    using assms by (simp add: registry_token_trace)
  then have "fst (fetch_manifest e i t (fst ?p') (snd ?p))
             = fst (fetch_manifest e i t (fst ?p') (snd ?p'))"
    by (rule fetch_manifest_fst)
  then show ?thesis
    using tok assms tokens
    by (simp add: check_ghcr_tag_def requests_get_def Let_def case_prod_beta)
qed

lemma lookup_custom_fst:
  "length (trace s) = length (trace s') \<Longrightarrow>
   fst (lookup_custom e t tok s) = fst (lookup_custom e t tok s')"
  by (auto simp: lookup_custom_def intro: hub_fst check_ghcr_fst)

section \<open>The verdicts and the run\<close>

lemma image_status_cases:
  "image_status d = Inr st \<Longrightarrow>
     (st = ABSENT \<longleftrightarrow> \<not> truthy d)
     \<and> (st = PRESENT_COMPLETE \<longleftrightarrow>
          truthy d \<and> (\<exists>found. fst (get_platforms_from_tag_data d init_state) = Inr found
                              \<and> REQUIRED_PLATFORMS \<subseteq> found))"
  by (auto simp: image_status_def split: if_splits sum.splits)

lemma pair_fst_snd: "fst p = a \<Longrightarrow> p = (a, snd p)"
  by (cases p) simp

lemma verdict_of_lookup:
  assumes d: "fst p = Inr d"
  shows "fst (and_then p
                (\<lambda>tag_data s.
                   if truthy tag_data then
                     and_then (get_platforms_from_tag_data tag_data (log_info m1 s))
                       (\<lambda>found s.
                          let s = log_info (m2 found) s
                          in if has_all_required found
                             then (Inr True, log_info m3 s)
                             else (Inr False, log_info (m4 found) s))
                   else (Inr False, log_info m5 s)))
         = (case image_status d of Inl x \<Rightarrow> Inl x | Inr st \<Rightarrow> Inr (st = PRESENT_COMPLETE))"
proof -
  have p: "p = (Inr d, snd p)" using d by (rule pair_fst_snd)
  show ?thesis
  proof (cases "truthy d")
    case False
    then show ?thesis by (subst p) (simp add: image_status_def)
  next
    case True
    obtain r sq where q: "get_platforms_from_tag_data d (log_info m1 (snd p)) = (r, sq)"
      by force
    have r: "fst (get_platforms_from_tag_data d init_state) = r"
      using get_platforms_fst[of d init_state "log_info m1 (snd p)"] q by simp
    show ?thesis
    proof (cases r)
      case (Inl x)
      with True q r show ?thesis
        by (subst p) (simp add: image_status_def)
    next
      case (Inr found)
      with True q r show ?thesis
        by (subst p) (simp add: image_status_def has_all_required_iff Let_def)
    qed
  qed
qed

lemma check_official_fst:
  assumes "fst (check_docker_hub_tag e OFFICIAL_CADDY_IMAGE t s') = Inr d"
      and "length (trace s') = length (trace s)"
  shows "fst (check_official e t s)
         = (case image_status d of Inl x \<Rightarrow> Inl x | Inr st \<Rightarrow> Inr (st = PRESENT_COMPLETE))"
proof -
  have "fst (check_docker_hub_tag e OFFICIAL_CADDY_IMAGE t
               (log_info (Step1 OFFICIAL_CADDY_IMAGE t) s)) = Inr d"
    using assms hub_fst[of "log_info (Step1 OFFICIAL_CADDY_IMAGE t) s" s'] by simp
  then show ?thesis
    unfolding check_official_def by (rule verdict_of_lookup)
qed

lemma check_custom_fst:
  assumes "fst (lookup_custom e t tok s') = Inr d"
      and "length (trace s') = length (trace s)"
  shows "fst (check_custom e t tok s)
         = (case image_status d of Inl x \<Rightarrow> Inl x | Inr st \<Rightarrow> Inr (st = PRESENT_COMPLETE))"
proof -
  have "fst (lookup_custom e t tok
               (log_info (Step2 (CUSTOM_IMAGE e) t (str_upper e (CUSTOM_REGISTRY e))) s)) = Inr d"
    using assms
          lookup_custom_fst
            [of "log_info (Step2 (CUSTOM_IMAGE e) t (str_upper e (CUSTOM_REGISTRY e))) s" s']
    by simp
  then show ?thesis
    unfolding check_custom_def by (rule verdict_of_lookup)
qed

lemma startup_ok:
  "CUSTOM_REGISTRY e \<in> {''dockerhub'', ''ghcr''} \<Longrightarrow> fst (startup e s) = Inr ()"
  by (auto simp: startup_def Let_def REQUIRED_PLATFORMS_def)

lemma startup_refused:
  "CUSTOM_REGISTRY e \<notin> {''dockerhub'', ''ghcr''} \<Longrightarrow> fst (startup e s) = Inl (SystemExit 1)"
  by (auto simp: startup_def Let_def REQUIRED_PLATFORMS_def)

text \<open>
  The states that \<open>main\<close> goes through differ from those of the single calls in the
  printed lines only: the calls return the same values in both.
\<close>

lemma run_to_release:
  assumes reg: "CUSTOM_REGISTRY e \<in> {''dockerhub'', ''ghcr''}"
  shows "\<exists>a0 a1. startup e s = (Inr (), a0)
           \<and> get_latest_caddy_release e tok a0
             = (fst (get_latest_caddy_release e tok s), a1)
           \<and> keeps_output s a1 \<and> same_decisions s a1
           \<and> trace a1 = trace s @ [release_request tok]"
proof -
  let ?a0 = "snd (startup e s)"
  let ?p = "get_latest_caddy_release e tok ?a0"
  have s0: "startup e s = (Inr (), ?a0)"
    using startup_ok[OF reg, of s] by (rule pair_fst_snd)
  have t0: "trace ?a0 = trace s" by (rule startup_trace)
  have k0: "keeps_output s ?a0" by (simp add: startup_keeps)
  have d0: "same_decisions s ?a0" by (simp add: startup_silent)
  have "fst ?p = fst (get_latest_caddy_release e tok s)"
    by (rule get_latest_fst) (simp add: t0)
  then have "?p = (fst (get_latest_caddy_release e tok s), snd ?p)"
    by (rule pair_fst_snd)
  moreover have "keeps_output s (snd ?p)" using k0 by (rule get_latest_keeps)
  moreover have "same_decisions s (snd ?p)" using d0 by (rule get_latest_silent)
  moreover have "trace (snd ?p) = trace s @ [release_request tok]"
    by (simp add: get_latest_trace t0)
  ultimately show ?thesis using s0 by blast
qed

lemma run_to_official:
  assumes reg: "CUSTOM_REGISTRY e \<in> {''dockerhub'', ''ghcr''}"
      and rel: "get_latest_caddy_release e tok s = (Inr tag, s1)"
      and off: "check_docker_hub_tag e OFFICIAL_CADDY_IMAGE (lstrip_v tag) s1 = (Inr upstream, s2)"
  shows "\<exists>a0 a1 a2. startup e s = (Inr (), a0)
           \<and> get_latest_caddy_release e tok a0 = (Inr tag, a1)
           \<and> check_official e (lstrip_v tag) a1
             = ((case image_status upstream of
                   Inl x \<Rightarrow> Inl x | Inr st \<Rightarrow> Inr (st = PRESENT_COMPLETE)), a2)
           \<and> keeps_output s a2 \<and> same_decisions s a2 \<and> trace a2 = trace s2"
proof -
  obtain a0 a1 where a: "startup e s = (Inr (), a0)"
      "get_latest_caddy_release e tok a0 = (Inr tag, a1)"
      "keeps_output s a1" "trace a1 = trace s @ [release_request tok]"
      "same_decisions s a1"
    using run_to_release[OF reg, of s tok] rel by auto
  have t1: "trace s1 = trace s @ [release_request tok]"
    using get_latest_trace[of e tok s] rel by simp
  have t2: "trace s2 = trace s1 @ [hub_request OFFICIAL_CADDY_IMAGE (lstrip_v tag)]"
    using hub_trace[of e OFFICIAL_CADDY_IMAGE "lstrip_v tag" s1] off by simp
  let ?p = "check_official e (lstrip_v tag) a1"
  have "fst ?p = (case image_status upstream of
                    Inl x \<Rightarrow> Inl x | Inr st \<Rightarrow> Inr (st = PRESENT_COMPLETE))"
    by (rule check_official_fst[where s' = s1]) (simp_all add: off a t1)
  then have "?p = ((case image_status upstream of
                      Inl x \<Rightarrow> Inl x | Inr st \<Rightarrow> Inr (st = PRESENT_COMPLETE)), snd ?p)"
    by (rule pair_fst_snd)
  moreover have "keeps_output s (snd ?p)" using a(3) by (rule check_official_keeps)
  moreover have "same_decisions s (snd ?p)" using a(5) by (rule check_official_silent)
  moreover have "trace (snd ?p) = trace s2"
    by (simp add: check_official_trace a t1 t2)
  ultimately show ?thesis using a by blast
qed

lemma run_to_custom:
  assumes cus: "lookup_custom e t tok s2 = (Inr custom, s3)"
      and tr: "trace a2 = trace s2" and keeps: "keeps_output s a2"
      and silent: "same_decisions s a2"
  shows "\<exists>a3. check_custom e t tok a2
               = ((case image_status custom of
                     Inl x \<Rightarrow> Inl x | Inr st \<Rightarrow> Inr (st = PRESENT_COMPLETE)), a3)
           \<and> keeps_output s a3 \<and> same_decisions s a3"
proof -
  let ?p = "check_custom e t tok a2"
  have "fst ?p = (case image_status custom of
                    Inl x \<Rightarrow> Inl x | Inr st \<Rightarrow> Inr (st = PRESENT_COMPLETE))"
    by (rule check_custom_fst[where s' = s2]) (simp_all add: cus tr)
  then have "?p = ((case image_status custom of
                      Inl x \<Rightarrow> Inl x | Inr st \<Rightarrow> Inr (st = PRESENT_COMPLETE)), snd ?p)"
    by (rule pair_fst_snd)
  moreover have "keeps_output s (snd ?p)" using keeps by (rule check_custom_keeps)
  moreover have "same_decisions s (snd ?p)" using silent by (rule check_custom_silent)
  ultimately show ?thesis by blast
qed

lemma main_stops_with_release:
  assumes "startup e s = (Inr (), a0)"
      and "get_latest_caddy_release e (environ e ''GITHUB_TOKEN'') a0 = (Inl x, a1)"
  shows "main e s = (Inl x, a1)"
  using assms by (simp add: main_def Let_def)

lemma main_not_ready:
  assumes "startup e s = (Inr (), a0)"
      and "get_latest_caddy_release e (environ e ''GITHUB_TOKEN'') a0 = (Inr tag, a1)"
      and "check_official e (lstrip_v tag) a1 = (Inr False, a2)"
  shows "main e s
         = and_then (set_action_output e ''NEEDS_BUILD'' ''false'' (log_info Result_not_ready a2))
             (\<lambda>u s. and_then (set_action_output e ''LATEST_VERSION'' tag s)
                      (\<lambda>u s. (Inl (SystemExit 0), s)))"
  using assms by (simp add: main_def Let_def)

lemma main_ready:
  assumes "startup e s = (Inr (), a0)"
      and "get_latest_caddy_release e (environ e ''GITHUB_TOKEN'') a0 = (Inr tag, a1)"
      and "check_official e (lstrip_v tag) a1 = (Inr True, a2)"
      and "check_custom e (CUSTOM_TAG_PREFIX @ lstrip_v tag) (environ e ''GITHUB_TOKEN'') a2
           = (Inr complete, a3)"
  shows "main e s
         = and_then
             (set_action_output e ''NEEDS_BUILD'' (if complete then ''false'' else ''true'')
                (log_info (Final_decision tag (\<not> complete)) a3))
             (\<lambda>u s. and_then (set_action_output e ''LATEST_VERSION'' tag s)
                      (\<lambda>u s. (Inr (), log_info Finished s)))"
  using assms by (simp add: main_def Let_def)

lemma main_check_raises:
  assumes "startup e s = (Inr (), a0)"
      and "get_latest_caddy_release e (environ e ''GITHUB_TOKEN'') a0 = (Inr tag, a1)"
      and "check_official e (lstrip_v tag) a1 = (Inl x, a2)"
  shows "main e s = (Inl x, a2)"
  using assms by (simp add: main_def Let_def)

lemma set_action_output_written:
  assumes "environ e ''GITHUB_OUTPUT'' = Some path" and "open_ok e (opens s) path"
  shows "set_action_output e k v s
         = (Inr (),
            s\<lparr>opens := Suc (opens s),
              uuids_drawn := (if CHR 0x0A \<in> set v then Suc (uuids_drawn s) else uuids_drawn s),
              out_file := out_file s @ sink_entry k v (next_delimiter e s)\<rparr>)"
  using assms by (simp add: set_action_output_def sink_entry_def next_delimiter_def Let_def)

lemma set_action_output_skipped:
  assumes "environ e ''GITHUB_OUTPUT'' = None"
  shows "set_action_output e k v s = (Inr (), s\<lparr>log := log s @ [Warning_no_output k]\<rparr>)"
  using assms by (simp add: set_action_output_def)

text \<open>The two writes at the end of a run, when the output file can be opened.\<close>

lemma two_writes:
  assumes sink: "environ e ''GITHUB_OUTPUT'' = Some path"
      and o1: "open_ok e (opens a) path" and o2: "open_ok e (Suc (opens a)) path"
      and flag: "CHR 0x0A \<notin> set flag"
  shows "and_then (set_action_output e ''NEEDS_BUILD'' flag a)
           (\<lambda>u s. and_then (set_action_output e ''LATEST_VERSION'' tag s) (\<lambda>u s. (r, f s)))
         = (r, f (a\<lparr>opens := Suc (Suc (opens a)),
                    uuids_drawn := (if CHR 0x0A \<in> set tag then Suc (uuids_drawn a)
                                    else uuids_drawn a),
                    out_file := out_file a @ ''NEEDS_BUILD='' @ flag @ newline
                                  @ sink_entry ''LATEST_VERSION'' tag (next_delimiter e a)\<rparr>))"
  using assms
  by (simp add: set_action_output_written sink_entry_def next_delimiter_def)

text \<open>The two writes at the end of a run, when \<^verbatim>\<open>GITHUB_OUTPUT\<close> is not set.\<close>

lemma two_skipped_writes:
  assumes "environ e ''GITHUB_OUTPUT'' = None"
  shows "and_then (set_action_output e ''NEEDS_BUILD'' flag a)
           (\<lambda>u s. and_then (set_action_output e ''LATEST_VERSION'' tag s) (\<lambda>u s. (r, f s)))
         = (r, f (a\<lparr>log := log a @ [Warning_no_output ''NEEDS_BUILD'',
                                     Warning_no_output ''LATEST_VERSION'']\<rparr>))"
  using assms by (simp add: set_action_output_skipped)

section \<open>The end of a run\<close>

lemma decisions_log_info:
  "decisions (log_info m s) = (if decision_line (Info m) then decisions s @ [Info m] else decisions s)"
  by (simp add: decisions_def log_info_def)

text \<open>
  The decision line and the two writes, when the output file can be opened: what has
  been written, and what the state keeps.
\<close>

lemma end_of_run_written:
  assumes sink: "environ e ''GITHUB_OUTPUT'' = Some path"
      and o1: "open_ok e (opens s) path" and o2: "open_ok e (Suc (opens s)) path"
      and flag: "CHR 0x0A \<notin> set flag"
      and keeps: "keeps_output s a" and silent: "same_decisions s a"
      and m: "decision_line (Info m)"
  shows "\<exists>z. and_then (set_action_output e ''NEEDS_BUILD'' flag (log_info m a))
                (\<lambda>u s. and_then (set_action_output e ''LATEST_VERSION'' tag s)
                         (\<lambda>u s. (r, f s)))
              = (r, f z)
           \<and> out_file z = out_file s @ ''NEEDS_BUILD='' @ flag @ newline
                             @ sink_entry ''LATEST_VERSION'' tag (next_delimiter e s)
           \<and> trace z = trace a
           \<and> decisions z = decisions s @ [Info m]"
proof -
  let ?a = "log_info m a"
  let ?z = "?a\<lparr>opens := Suc (Suc (opens ?a)),
               uuids_drawn := (if CHR 0x0A \<in> set tag then Suc (uuids_drawn ?a)
                               else uuids_drawn ?a),
               out_file := out_file ?a @ ''NEEDS_BUILD='' @ flag @ newline
                             @ sink_entry ''LATEST_VERSION'' tag (next_delimiter e ?a)\<rparr>"
  have same: "opens ?a = opens s" "uuids_drawn ?a = uuids_drawn s" "out_file ?a = out_file s"
    using keeps by (simp_all add: keeps_output_def log_info_def)
  have "and_then (set_action_output e ''NEEDS_BUILD'' flag ?a)
          (\<lambda>u s. and_then (set_action_output e ''LATEST_VERSION'' tag s) (\<lambda>u s. (r, f s)))
        = (r, f ?z)"
    using sink o1 o2 flag by (intro two_writes) (simp_all add: same)
  moreover have "out_file ?z = out_file s @ ''NEEDS_BUILD='' @ flag @ newline
                                 @ sink_entry ''LATEST_VERSION'' tag (next_delimiter e s)"
    by (simp add: same next_delimiter_def)
  moreover have "trace ?z = trace a" by simp
  moreover have "decisions ?z = decisions s @ [Info m]"
    using silent m by (simp add: decisions_def same_decisions_def log_info_def)
  ultimately show ?thesis by blast
qed

text \<open>The decision line and the two writes, when \<^verbatim>\<open>GITHUB_OUTPUT\<close> is not set.\<close>

lemma end_of_run_skipped:
  assumes sink: "environ e ''GITHUB_OUTPUT'' = None"
      and keeps: "keeps_output s a" and silent: "same_decisions s a"
      and m: "decision_line (Info m)"
  shows "\<exists>z. and_then (set_action_output e ''NEEDS_BUILD'' flag (log_info m a))
                (\<lambda>u s. and_then (set_action_output e ''LATEST_VERSION'' tag s)
                         (\<lambda>u s. (r, f s)))
              = (r, f z)
           \<and> keeps_output s z
           \<and> trace z = trace a
           \<and> decisions z = decisions s @ [Info m]
           \<and> log z = log a @ [Info m, Warning_no_output ''NEEDS_BUILD'',
                               Warning_no_output ''LATEST_VERSION'']"
proof -
  let ?a = "log_info m a"
  let ?z = "?a\<lparr>log := log ?a @ [Warning_no_output ''NEEDS_BUILD'',
                                  Warning_no_output ''LATEST_VERSION'']\<rparr>"
  have "and_then (set_action_output e ''NEEDS_BUILD'' flag ?a)
          (\<lambda>u s. and_then (set_action_output e ''LATEST_VERSION'' tag s) (\<lambda>u s. (r, f s)))
        = (r, f ?z)"
    using sink by (rule two_skipped_writes)
  moreover have "keeps_output s ?z"
    using keeps by (simp add: keeps_output_def log_info_def)
  moreover have "trace ?z = trace a" by (simp add: log_info_def)
  moreover have "decisions ?z = decisions s @ [Info m]"
    using silent m by (simp add: decisions_def same_decisions_def log_info_def)
  moreover have "log ?z = log a @ [Info m, Warning_no_output ''NEEDS_BUILD'',
                                   Warning_no_output ''LATEST_VERSION'']"
    by (simp add: log_info_def)
  ultimately show ?thesis by blast
qed

lemma flags_one_line: "CHR 0x0A \<notin> set ''false''" "CHR 0x0A \<notin> set ''true''"
  by simp_all

lemma requests_of_two_checks:
  assumes "get_latest_caddy_release e tok s = (Inr tag, s1)"
      and "check_docker_hub_tag e OFFICIAL_CADDY_IMAGE t s1 = (Inr upstream, s2)"
  shows "trace s2 = trace s @ [release_request tok, hub_request OFFICIAL_CADDY_IMAGE t]"
  using get_latest_trace[of e tok s] hub_trace[of e OFFICIAL_CADDY_IMAGE t s1] assms by simp

section \<open>The completeness verdict\<close>

lemma image_status_images:
  "map_of tag_data ''images'' = Some (JArr imgs) \<Longrightarrow>
     image_status (JObj tag_data)
     = Inr (if REQUIRED_PLATFORMS \<subseteq> published_platforms imgs
            then PRESENT_COMPLETE else PRESENT_INCOMPLETE)"
  by (auto simp: image_status_def get_platforms_images)

text \<open>
  C3. The verdicts that \<open>main\<close> computes. When the check of the official image returns
  a descriptor with a list of images, the verdict on the official image is true exactly
  when the published set of the list includes the required set; so it is for the
  verdict on the custom image, when the check on the configured registry returns such a
  descriptor. The test under both verdicts: a found set that includes the required set
  (the required set itself, or more) has every required platform, and a found set from
  which a required platform has been taken has not; the set extracted from a
  descriptor passes the test exactly when the published set includes the required set.
\<close>

theorem verdict_true_iff_required_published:
  "(map_of tag_data ''images'' = Some (JArr imgs) \<longrightarrow>
      (fst (check_docker_hub_tag e OFFICIAL_CADDY_IMAGE t s) = Inr (JObj tag_data) \<longrightarrow>
         fst (check_official e t s) = Inr (REQUIRED_PLATFORMS \<subseteq> published_platforms imgs))
      \<and> (fst (lookup_custom e t tok s) = Inr (JObj tag_data) \<longrightarrow>
         fst (check_custom e t tok s) = Inr (REQUIRED_PLATFORMS \<subseteq> published_platforms imgs))
      \<and> (\<exists>extracted. get_platforms_from_tag_data (JObj tag_data) s = (Inr extracted, s)
            \<and> (has_all_required extracted
                 \<longleftrightarrow> REQUIRED_PLATFORMS \<subseteq> published_platforms imgs)
            \<and> (p \<in> REQUIRED_PLATFORMS \<longrightarrow> \<not> has_all_required (extracted - {p}))))
   \<and> (REQUIRED_PLATFORMS \<subseteq> found \<longrightarrow> has_all_required found)
   \<and> (p \<in> REQUIRED_PLATFORMS \<longrightarrow> \<not> has_all_required (found - {p}))"
proof -
  have official: "fst (check_official e t s) = Inr (REQUIRED_PLATFORMS \<subseteq> published_platforms imgs)"
    if "map_of tag_data ''images'' = Some (JArr imgs)"
       "fst (check_docker_hub_tag e OFFICIAL_CADDY_IMAGE t s) = Inr (JObj tag_data)"
    using check_official_fst[of e t s "JObj tag_data" s] that
    by (simp add: image_status_images)
  have custom: "fst (check_custom e t tok s) = Inr (REQUIRED_PLATFORMS \<subseteq> published_platforms imgs)"
    if "map_of tag_data ''images'' = Some (JArr imgs)"
       "fst (lookup_custom e t tok s) = Inr (JObj tag_data)"
    using check_custom_fst[of e t tok s "JObj tag_data" s] that
    by (simp add: image_status_images)
  have sets: "(REQUIRED_PLATFORMS \<subseteq> found \<longrightarrow> has_all_required found)
              \<and> (p \<in> REQUIRED_PLATFORMS \<longrightarrow> \<not> has_all_required (found - {p}))" for found
    by (auto simp: has_all_required_iff)
  have extracted: "\<exists>extracted. get_platforms_from_tag_data (JObj tag_data) s = (Inr extracted, s)
            \<and> (has_all_required extracted
                 \<longleftrightarrow> REQUIRED_PLATFORMS \<subseteq> published_platforms imgs)
            \<and> (p \<in> REQUIRED_PLATFORMS \<longrightarrow> \<not> has_all_required (extracted - {p}))"
    if "map_of tag_data ''images'' = Some (JArr imgs)"
    using that by (auto simp: has_all_required_iff get_platforms_images)
  show ?thesis
    using official custom sets extracted by blast
qed

theorem verdict_true_iff_required_published_witness:
  "map_of [(''name'', JStr ''2.8.4''),
           (''images'', JArr [linux_entry ''amd64'', linux_entry ''386'', linux_entry ''arm64'',
                             linux_entry ''amd64''])] ''images''
     = Some (JArr [linux_entry ''amd64'', linux_entry ''386'', linux_entry ''arm64'',
                   linux_entry ''amd64''])
   \<and> fst (check_docker_hub_tag (run_env hub_registry [Response 200 (Some complete_tag)])
             OFFICIAL_CADDY_IMAGE ''2.8.4'' init_state) = Inr complete_tag
   \<and> fst (check_official (run_env hub_registry [Response 200 (Some complete_tag)])
             ''2.8.4'' init_state) = Inr True
   \<and> map_of [(''images'', JArr [linux_entry ''386'', linux_entry ''amd64''])] ''images''
       = Some (JArr [linux_entry ''386'', linux_entry ''amd64''])
   \<and> fst (lookup_custom (run_env hub_registry [Response 200 (Some amd64_only_tag)])
             ''2.8.4'' None init_state) = Inr amd64_only_tag
   \<and> fst (check_custom (run_env hub_registry [Response 200 (Some amd64_only_tag)])
             ''2.8.4'' None init_state) = Inr False
   \<and> REQUIRED_PLATFORMS \<subseteq> {''linux/amd64'', ''linux/arm64'', ''linux/386''}
   \<and> has_all_required {''linux/amd64'', ''linux/arm64'', ''linux/386''}
   \<and> ''linux/arm64'' \<in> REQUIRED_PLATFORMS
   \<and> \<not> has_all_required ({''linux/amd64'', ''linux/arm64'', ''linux/386''} - {''linux/arm64''})"
proof -
  have pub1: "published_platforms [linux_entry ''amd64'', linux_entry ''386'',
                                   linux_entry ''arm64'', linux_entry ''amd64'']
               = {''linux/amd64'', ''linux/386'', ''linux/arm64''}"
    by (auto simp: published_platforms_def List.map_filter_def published_platform_def
          linux_entry_def normalized_platform_def dict_get_def py_str_def)
  have pub2: "published_platforms [linux_entry ''386'', linux_entry ''amd64'']
               = {''linux/386'', ''linux/amd64''}"
    by (simp add: published_platforms_def List.map_filter_def published_platform_def
          linux_entry_def normalized_platform_def dict_get_def py_str_def)
  have req: "REQUIRED_PLATFORMS \<subseteq> {''linux/amd64'', ''linux/arm64'', ''linux/386''}"
            "REQUIRED_PLATFORMS \<subseteq> {''linux/amd64'', ''linux/386'', ''linux/arm64''}"
            "''linux/arm64'' \<in> REQUIRED_PLATFORMS"
            "\<not> REQUIRED_PLATFORMS \<subseteq> {''linux/386'', ''linux/amd64''}"
    by (simp_all add: REQUIRED_PLATFORMS_def)
  have hub: "fst (check_docker_hub_tag (run_env hub_registry [Response 200 (Some d)])
                    i ''2.8.4'' init_state) = Inr d" for d i
    by (simp add: check_docker_hub_tag_def requests_get_def run_env_def init_state_def)
  have low: "ascii_lower ''DockerHub'' = ''dockerhub''"
    by code_simp
  have reg: "CUSTOM_REGISTRY (run_env hub_registry a) = ''dockerhub''" for a
    by (simp add: CUSTOM_REGISTRY_def run_env_def hub_registry_def low)
  have look: "fst (lookup_custom (run_env hub_registry [Response 200 (Some d)])
                     ''2.8.4'' None init_state) = Inr d" for d
    by (simp add: lookup_custom_def reg hub)
  show ?thesis
    using verdict_true_iff_required_published
            [of "[(''name'', JStr ''2.8.4''),
                  (''images'', JArr [linux_entry ''amd64'', linux_entry ''386'',
                                    linux_entry ''arm64'', linux_entry ''amd64''])]"
                "[linux_entry ''amd64'', linux_entry ''386'', linux_entry ''arm64'',
                  linux_entry ''amd64'']"
                "run_env hub_registry [Response 200 (Some complete_tag)]" "''2.8.4''" init_state
                None "''linux/arm64''" "{''linux/amd64'', ''linux/arm64'', ''linux/386''}"]
          verdict_true_iff_required_published
            [of "[(''images'', JArr [linux_entry ''386'', linux_entry ''amd64''])]"
                "[linux_entry ''386'', linux_entry ''amd64'']"
                "run_env hub_registry [Response 200 (Some amd64_only_tag)]" "''2.8.4''" init_state
                None "''linux/arm64''" "{''linux/amd64'', ''linux/arm64'', ''linux/386''}"]
          req hub[of complete_tag] look[of amd64_only_tag]
    by (simp add: pub1 pub2 complete_tag_def[symmetric] amd64_only_tag_def[symmetric])
qed

section \<open>The requests of the GHCR check\<close>

lemma multi_arch_trace: "trace (snd (multi_arch_manifest m s)) = trace s"
  by (simp add: multi_arch_manifest_def split: sum.splits)

lemma read_config_trace: "trace (snd (read_config i t r s)) = trace s"
  by (simp add: read_config_def split: http_result.splits option.splits)

lemma single_arch_trace:
  "prefix (trace s) (trace (snd (single_arch_manifest e i t r m s)))"
  by (simp add: single_arch_manifest_def requests_get_def Let_def read_config_trace
           split: option.splits)

lemma read_manifest_trace:
  "prefix (trace s) (trace (snd (read_manifest e i t r response s)))"
  by (simp add: read_manifest_def multi_arch_trace single_arch_trace
           split: http_result.splits option.splits)

lemma fetch_manifest_trace:
  "prefix (trace s @ [manifest_request i t (py_str r)]) (trace (snd (fetch_manifest e i t r s)))"
  using read_manifest_trace
          [of "s\<lparr>trace := trace s @ [manifest_request i t (py_str r)]\<rparr>" e i t r]
  by (simp add: fetch_manifest_def requests_get_def manifest_request_def Let_def)

lemma fetch_manifest_result:
  "fst (fetch_manifest e i t r s)
   = fst (read_manifest e i t r
            (http_get e (length (trace s)) (manifest_request i t (py_str r)))
            (s\<lparr>trace := trace s @ [manifest_request i t (py_str r)]\<rparr>))"
  by (simp add: fetch_manifest_def requests_get_def manifest_request_def Let_def)

text \<open>
  Lines 122 to 136: when the exchange gives no token, the manifest is fetched with the
  GitHub token, after one line has been printed.
\<close>

lemma ghcr_fallback:
  assumes t: "t \<noteq> []"
      and failed: "\<forall>auth. http_get e (length (trace s)) (token_request i t)
                            \<noteq> Response 200 (Some (JObj auth))"
  shows "\<exists>m. check_ghcr_tag e i tag (Some t) s
              = fetch_manifest e i tag (JStr t)
                  (log_info m (s\<lparr>trace := trace s @ [token_request i t]\<rparr>))"
proof (cases "http_get e (length (trace s)) (token_request i t)")
  case Timeout
  then show ?thesis
    using t
    by (auto simp: check_ghcr_tag_def requests_get_def token_request_def registry_token_of_def)
next
  case RequestException
  then show ?thesis
    using t
    by (auto simp: check_ghcr_tag_def requests_get_def token_request_def registry_token_of_def)
next
  case (Response status body)
  show ?thesis
  proof (cases "status = 200")
    case False
    with Response t show ?thesis
      by (auto simp: check_ghcr_tag_def requests_get_def token_request_def
            registry_token_of_def)
  next
    case True
    show ?thesis
    proof (cases body)
      case None
      with Response True t show ?thesis
        by (auto simp: check_ghcr_tag_def requests_get_def token_request_def
              registry_token_of_def)
    next
      case (Some auth_json)
      have "as_dict auth_json = None"
        using failed Response True Some by (cases auth_json) (auto simp: as_dict_def)
      with Response True Some t show ?thesis
        by (auto simp: check_ghcr_tag_def requests_get_def token_request_def
              registry_token_of_def)
    qed
  qed
qed

lemma ghcr_fallback_result:
  assumes t: "t \<noteq> []"
      and failed: "\<forall>auth. http_get e (length (trace s)) (token_request i t)
                            \<noteq> Response 200 (Some (JObj auth))"
  shows "fst (check_ghcr_tag e i tag (Some t) s)
         = fst (read_manifest e i tag (JStr t)
                  (http_get e (Suc (length (trace s))) (manifest_request i tag t))
                  (s\<lparr>trace := trace s @ [token_request i t, manifest_request i tag t]\<rparr>))"
proof -
  obtain m where m: "check_ghcr_tag e i tag (Some t) s
                     = fetch_manifest e i tag (JStr t)
                         (log_info m (s\<lparr>trace := trace s @ [token_request i t]\<rparr>))"
    using ghcr_fallback[OF t failed] by blast
  let ?s1 = "log_info m (s\<lparr>trace := trace s @ [token_request i t]\<rparr>)"
  have len: "length (trace ?s1) = Suc (length (trace s))"
    by simp
  have "fst (check_ghcr_tag e i tag (Some t) s)
        = fst (read_manifest e i tag (JStr t)
                 (http_get e (length (trace ?s1)) (manifest_request i tag (py_str (JStr t))))
                 (?s1\<lparr>trace := trace ?s1 @ [manifest_request i tag (py_str (JStr t))]\<rparr>))"
    unfolding m by (rule fetch_manifest_result)
  also have "\<dots> = fst (read_manifest e i tag (JStr t)
                (http_get e (length (trace ?s1)) (manifest_request i tag (py_str (JStr t))))
                (s\<lparr>trace := trace s @ [token_request i t, manifest_request i tag t]\<rparr>))"
    by (rule read_manifest_fst) (simp add: py_str_JStr)
  finally show ?thesis
    unfolding len py_str_JStr .
qed

section \<open>The release lookup\<close>

lemma startswith_v: "startswith t ''v'' \<Longrightarrow> t \<noteq> []"
  by (auto simp: startswith_def)

lemma read_release_Inr:
  "fst (read_release r s) = Inr tag \<longleftrightarrow>
     (\<exists>status release. r = Response status (Some (JObj release))
        \<and> \<not> (400 \<le> status \<and> status < 600)
        \<and> dict_get release ''tag_name'' = JStr tag \<and> tag \<noteq> [] \<and> startswith tag ''v'')"
proof (cases r)
  case (Response status body)
  show ?thesis
  proof (cases body)
    case None
    with Response show ?thesis by (simp add: read_release_def)
  next
    case (Some release_json)
    show ?thesis
    proof (cases release_json)
      case (JObj release)
      show ?thesis
        using Response Some JObj
        by (cases "dict_get release ''tag_name''")
           (auto simp: read_release_def as_dict_def as_str_def Let_def dest: startswith_v)
    qed (use Response Some in \<open>simp_all add: read_release_def as_dict_def\<close>)
  qed
qed (simp_all add: read_release_def)

lemma read_release_Inl:
  "fst (read_release r s) = Inl x \<Longrightarrow> x = SystemExit 1 \<or> x = AttributeError"
  by (cases r)
     (auto simp: read_release_def Let_def split: option.splits if_splits)

lemma get_latest_result:
  "fst (get_latest_caddy_release e tok s)
   = fst (read_release (http_get e (length (trace s)) (release_request tok)) s)"
  by (auto simp: get_latest_caddy_release_def requests_get_def release_request_def Let_def
           intro: read_release_fst split: option.splits)

text \<open>
  C7. \<open>get_latest_caddy_release\<close> returns a tag exactly when the request is answered,
  the status is none from 400 to 599, the body is a JSON object, and its \<open>tag_name\<close> is
  a string that is not empty and starts with \<open>v\<close>; the tag returned is that string. In
  every other case the call ends the process with the exit status 1. A run whose
  release lookup ends so ends with it: \<open>main\<close> stops with the same exit, after the one
  request of the lookup, having written nothing to the output file and printed no
  decision.
\<close>

theorem release_lookup_fatal_or_tag:
  "(fst (get_latest_caddy_release e tok s) = Inr tag \<longleftrightarrow>
      (\<exists>status release.
          http_get e (length (trace s)) (release_request tok)
            = Response status (Some (JObj release))
          \<and> \<not> (400 \<le> status \<and> status < 600)
          \<and> dict_get release ''tag_name'' = JStr tag \<and> tag \<noteq> [] \<and> startswith tag ''v''))
   \<and> (fst (get_latest_caddy_release e tok s) = Inl x \<longrightarrow> exit_code (Inl x) = 1)
   \<and> (CUSTOM_REGISTRY e \<in> {''dockerhub'', ''ghcr''} \<longrightarrow>
       fst (get_latest_caddy_release e (environ e ''GITHUB_TOKEN'') s) = Inl x \<longrightarrow>
         fst (main e s) = Inl x
         \<and> exit_code (fst (main e s)) = 1
         \<and> keeps_output s (snd (main e s))
         \<and> decisions (snd (main e s)) = decisions s
         \<and> trace (snd (main e s)) = trace s @ [release_request (environ e ''GITHUB_TOKEN'')])"
proof -
  have code: "exit_code (Inl x) = 1" if "fst (get_latest_caddy_release e tok s) = Inl x" for tok
  proof -
    have "x = SystemExit 1 \<or> x = AttributeError"
      using that unfolding get_latest_result by (rule read_release_Inl)
    then show ?thesis by auto
  qed
  have run: "fst (main e s) = Inl x
         \<and> exit_code (fst (main e s)) = 1
         \<and> keeps_output s (snd (main e s))
         \<and> decisions (snd (main e s)) = decisions s
         \<and> trace (snd (main e s)) = trace s @ [release_request (environ e ''GITHUB_TOKEN'')]"
    if reg: "CUSTOM_REGISTRY e \<in> {''dockerhub'', ''ghcr''}"
      and rel: "fst (get_latest_caddy_release e (environ e ''GITHUB_TOKEN'') s) = Inl x"
  proof -
    obtain a0 a1 where a: "startup e s = (Inr (), a0)"
        "get_latest_caddy_release e (environ e ''GITHUB_TOKEN'') a0 = (Inl x, a1)"
        "keeps_output s a1" "trace a1 = trace s @ [release_request (environ e ''GITHUB_TOKEN'')]"
        "same_decisions s a1"
      using run_to_release[OF reg, of s "environ e ''GITHUB_TOKEN''"] rel by auto
    have m: "main e s = (Inl x, a1)"
      using a(1,2) by (rule main_stops_with_release)
    show ?thesis
      using m a(3,4,5) code[OF rel] by (simp add: same_decisions_def)
  qed
  have tag: "fst (get_latest_caddy_release e tok s) = Inr tag \<longleftrightarrow>
      (\<exists>status release.
          http_get e (length (trace s)) (release_request tok)
            = Response status (Some (JObj release))
          \<and> \<not> (400 \<le> status \<and> status < 600)
          \<and> dict_get release ''tag_name'' = JStr tag \<and> tag \<noteq> [] \<and> startswith tag ''v'')"
    by (simp add: get_latest_result read_release_Inr)
  show ?thesis
    using tag code[of tok] run by blast
qed

theorem release_lookup_fatal_or_tag_witness:
  "fst (get_latest_caddy_release (run_env with_output [release_answer]) None init_state)
     = Inr ''v2.8.4''
   \<and> CUSTOM_REGISTRY (run_env with_output bad_release_answers) \<in> {''dockerhub'', ''ghcr''}
   \<and> fst (get_latest_caddy_release (run_env with_output bad_release_answers)
             (environ (run_env with_output bad_release_answers) ''GITHUB_TOKEN'') init_state)
       = Inl (SystemExit 1)
   \<and> fst (main (run_env with_output bad_release_answers) init_state) = Inl (SystemExit 1)
   \<and> exit_code (fst (main (run_env with_output bad_release_answers) init_state)) = 1
   \<and> keeps_output init_state (snd (main (run_env with_output bad_release_answers) init_state))
   \<and> decisions (snd (main (run_env with_output bad_release_answers) init_state))
       = decisions init_state"
proof -
  have low: "ascii_lower ''ghcr'' = ''ghcr''"
    by code_simp
  have reg: "CUSTOM_REGISTRY (run_env with_output a) \<in> {''dockerhub'', ''ghcr''}" for a
    by (simp add: CUSTOM_REGISTRY_def run_env_def with_output_def low)
  have ans: "http_get (run_env with_output (r # rs)) (length (trace init_state)) q = r" for r rs q
    by (simp add: run_env_def init_state_def)
  have bad: "fst (get_latest_caddy_release (run_env with_output bad_release_answers)
                    (environ (run_env with_output bad_release_answers) ''GITHUB_TOKEN'')
                    init_state)
             = Inl (SystemExit 1)"
    by (simp add: get_latest_result bad_release_answers_def ans read_release_def as_dict_def
          as_str_def dict_get_def startswith_def)
  have good: "\<exists>status release.
          http_get (run_env with_output [release_answer]) (length (trace init_state))
              (release_request None)
            = Response status (Some (JObj release))
          \<and> \<not> (400 \<le> status \<and> status < 600)
          \<and> dict_get release ''tag_name'' = JStr ''v2.8.4'' \<and> ''v2.8.4'' \<noteq> []
          \<and> startswith ''v2.8.4'' ''v''"
    by (simp add: ans release_answer_def dict_get_def startswith_def)
  show ?thesis
    using release_lookup_fatal_or_tag
            [of "run_env with_output [release_answer]" None init_state "''v2.8.4''"]
          release_lookup_fatal_or_tag
            [of "run_env with_output bad_release_answers" None init_state _ "SystemExit 1"]
          reg[of bad_release_answers] bad good
    by blast
qed

section \<open>The example runs\<close>

lemma ascii_lower_ghcr: "ascii_lower ''ghcr'' = ''ghcr''"
  by code_simp

lemma example_registry:
  "vars ''CUSTOM_REGISTRY'' = None \<Longrightarrow> CUSTOM_REGISTRY (run_env vars answers) = ''ghcr''"
  by (simp add: CUSTOM_REGISTRY_def run_env_def ascii_lower_ghcr)

lemma example_answers:
  "http_get (run_env vars (r0 # rest)) (length (trace init_state)) q = r0"
  "http_get (run_env vars (r0 # r1 # rest)) (Suc (length (trace init_state))) q = r1"
  by (simp_all add: run_env_def init_state_def)

lemma example_release:
  "get_latest_caddy_release (run_env vars (release_answer # rest))
     (environ (run_env vars (release_answer # rest)) ''GITHUB_TOKEN'') init_state
   = (Inr ''v2.8.4'', after_release (run_env vars (release_answer # rest)))"
  unfolding after_release_def
  by (rule pair_fst_snd)
     (simp add: get_latest_result example_answers release_answer_def read_release_def
        as_dict_def as_str_def dict_get_def startswith_def)

lemma after_release_trace: "length (trace (after_release e)) = 1"
  by (simp add: after_release_def get_latest_trace init_state_def)

lemma hub_result:
  "fst (check_docker_hub_tag e i t s)
   = (case http_get e (length (trace s)) (hub_request i t) of
        Response status (Some d) \<Rightarrow> if status = 200 then Inr d else Inr JNull
      | _ \<Rightarrow> Inr JNull)"
  by (simp add: check_docker_hub_tag_def requests_get_def hub_request_def Let_def
           split: http_result.splits option.splits)

lemma example_official:
  "check_docker_hub_tag (run_env vars (r0 # Response 200 (Some d) # rest))
     OFFICIAL_CADDY_IMAGE ''2.8.4'' (after_release (run_env vars (r0 # Response 200 (Some d) # rest)))
   = (Inr d, after_official (run_env vars (r0 # Response 200 (Some d) # rest)))"
  unfolding after_official_def
  by (rule pair_fst_snd) (simp add: hub_result after_release_trace run_env_def)

lemma example_official_missing:
  "check_docker_hub_tag (run_env vars (r0 # Response 404 None # rest))
     OFFICIAL_CADDY_IMAGE ''2.8.4'' (after_release (run_env vars (r0 # Response 404 None # rest)))
   = (Inr JNull, after_official (run_env vars (r0 # Response 404 None # rest)))"
  unfolding after_official_def
  by (rule pair_fst_snd) (simp add: hub_result after_release_trace run_env_def)

lemma after_official_trace: "length (trace (after_official e)) = 2"
  by (simp add: after_official_def hub_trace after_release_trace)

lemma lstrip_v_example: "lstrip_v ''v2.8.4'' = ''2.8.4''"
  by (simp add: lstrip_v_def)

lemma index_result:
  "fst (read_manifest e i t r (Response 200 (Some index_manifest)) s)
   = Inr (JObj [(''images'', JArr [linux_entry ''amd64'', linux_entry ''arm64''])])"
  by (simp add: read_manifest_def index_manifest_def as_dict_def dict_get_def INDEX_TYPES_def
        multi_arch_manifest_def dict_get_default_def py_iter_def image_entry_def
        linux_entry_def)

lemma complete_tag_status: "image_status complete_tag = Inr PRESENT_COMPLETE"
proof -
  have "published_platforms [linux_entry ''amd64'', linux_entry ''386'',
                             linux_entry ''arm64'', linux_entry ''amd64'']
        = {''linux/amd64'', ''linux/386'', ''linux/arm64''}"
    by (auto simp: published_platforms_def List.map_filter_def published_platform_def
          linux_entry_def normalized_platform_def dict_get_def py_str_def)
  then show ?thesis
    by (simp add: complete_tag_def image_status_images REQUIRED_PLATFORMS_def)
qed

lemma index_images_status:
  "image_status (JObj [(''images'', JArr [linux_entry ''amd64'', linux_entry ''arm64''])])
   = Inr PRESENT_COMPLETE"
proof -
  have "published_platforms [linux_entry ''amd64'', linux_entry ''arm64'']
        = {''linux/amd64'', ''linux/arm64''}"
    by (simp add: published_platforms_def List.map_filter_def published_platform_def
          linux_entry_def normalized_platform_def dict_get_def py_str_def)
  then show ?thesis
    by (simp add: image_status_images REQUIRED_PLATFORMS_def)
qed

lemma absent_status: "image_status JNull = Inr ABSENT"
  by (simp add: image_status_def)

lemma example_custom:
  assumes vars: "vars ''CUSTOM_REGISTRY'' = None" "vars ''GITHUB_TOKEN'' = Some ''t0k''"
  shows "lookup_custom
     (run_env vars (r0 # r1 # Response 403 None # Response 200 (Some index_manifest) # rest))
     ''2.8.4''
     (environ (run_env vars
                 (r0 # r1 # Response 403 None # Response 200 (Some index_manifest) # rest))
        ''GITHUB_TOKEN'')
     (after_official
        (run_env vars (r0 # r1 # Response 403 None # Response 200 (Some index_manifest) # rest)))
   = (Inr (JObj [(''images'', JArr [linux_entry ''amd64'', linux_entry ''arm64''])]),
      after_custom
        (run_env vars (r0 # r1 # Response 403 None # Response 200 (Some index_manifest) # rest)))"
proof -
  let ?e = "run_env vars (r0 # r1 # Response 403 None # Response 200 (Some index_manifest) # rest)"
  have reg: "CUSTOM_REGISTRY ?e = ''ghcr''"
    using vars(1) by (rule example_registry)
  have tok: "environ ?e ''GITHUB_TOKEN'' = Some ''t0k''"
    using vars(2) by (simp add: run_env_def)
  have ans: "http_get ?e (length (trace (after_official ?e))) q = Response 403 None"
            "http_get ?e (Suc (length (trace (after_official ?e)))) q
             = Response 200 (Some index_manifest)" for q
    by (simp_all add: after_official_trace) (simp_all add: run_env_def)
  have "fst (check_ghcr_tag ?e (CUSTOM_IMAGE ?e) ''2.8.4'' (Some ''t0k'') (after_official ?e))
        = Inr (JObj [(''images'', JArr [linux_entry ''amd64'', linux_entry ''arm64''])])"
    by (subst ghcr_fallback_result) (simp_all add: ans index_result)
  then have "fst (lookup_custom ?e ''2.8.4'' (environ ?e ''GITHUB_TOKEN'') (after_official ?e))
        = Inr (JObj [(''images'', JArr [linux_entry ''amd64'', linux_entry ''arm64''])])"
    by (simp add: lookup_custom_def reg tok)
  then show ?thesis
    unfolding after_custom_def by (rule pair_fst_snd)
qed

section \<open>The output file\<close>

lemma sublist_suffix_part: "sublist (xs @ ys) zs \<Longrightarrow> sublist ys zs"
proof -
  assume "sublist (xs @ ys) zs"
  then obtain ps ss where "zs = ps @ (xs @ ys) @ ss" by (auto simp: sublist_def)
  then have "zs = (ps @ xs) @ ys @ ss" by simp
  then show ?thesis unfolding sublist_def by blast
qed

text \<open>
  C8, as amended. When the output file can be opened: a value with a newline is
  written as the block \<open>KEY<<DELIM\<close>, payload, \<open>DELIM\<close>, where the delimiter is
  \<open>ghadelimiter_\<close> followed by the uuid drawn in this call, and the count of draws goes
  up by one, so that the next block takes the next draw; the delimiter does not occur
  in the payload when the drawn uuid does not. A value without a newline is written as
  the line \<open>KEY=value\<close>, and no uuid is drawn.
\<close>

theorem output_block_or_line:
  "environ e ''GITHUB_OUTPUT'' = Some path \<longrightarrow> open_ok e (opens s) path \<longrightarrow>
     (CHR 0x0A \<in> set v \<longrightarrow>
        set_action_output e k v s
          = (Inr (),
             s\<lparr>opens := Suc (opens s), uuids_drawn := Suc (uuids_drawn s),
               out_file := out_file s @ k @ ''<<'' @ (''ghadelimiter_'' @ uuid4 e (uuids_drawn s))
                             @ newline @ v @ newline
                             @ (''ghadelimiter_'' @ uuid4 e (uuids_drawn s)) @ newline\<rparr>)
        \<and> (\<not> sublist (uuid4 e (uuids_drawn s)) v \<longrightarrow>
             \<not> sublist (''ghadelimiter_'' @ uuid4 e (uuids_drawn s)) v))
     \<and> (CHR 0x0A \<notin> set v \<longrightarrow>
          set_action_output e k v s
            = (Inr (), s\<lparr>opens := Suc (opens s), out_file := out_file s @ k @ ''='' @ v @ newline\<rparr>))"
  using sublist_suffix_part[of "''ghadelimiter_''" "uuid4 e (uuids_drawn s)" v]
  by (auto simp: set_action_output_def Let_def)

theorem output_block_or_line_witness:
  "environ (run_env with_output []) ''GITHUB_OUTPUT'' = Some ''/tmp/out''
   \<and> open_ok (run_env with_output []) (opens init_state) ''/tmp/out''
   \<and> CHR 0x0A \<in> set (''a'' @ newline @ ''b'')
   \<and> \<not> sublist (uuid4 (run_env with_output []) (uuids_drawn init_state)) (''a'' @ newline @ ''b'')
   \<and> set_action_output (run_env with_output []) ''K'' (''a'' @ newline @ ''b'') init_state
     = (Inr (),
        init_state\<lparr>opens := Suc (opens init_state), uuids_drawn := Suc (uuids_drawn init_state),
          out_file := out_file init_state @ ''K'' @ ''<<''
                        @ (''ghadelimiter_''
                           @ uuid4 (run_env with_output []) (uuids_drawn init_state))
                        @ newline @ (''a'' @ newline @ ''b'') @ newline
                        @ (''ghadelimiter_''
                           @ uuid4 (run_env with_output []) (uuids_drawn init_state))
                        @ newline\<rparr>)
   \<and> \<not> sublist (''ghadelimiter_'' @ uuid4 (run_env with_output []) (uuids_drawn init_state))
         (''a'' @ newline @ ''b'')
   \<and> CHR 0x0A \<notin> set ''true''
   \<and> set_action_output (run_env with_output []) ''NEEDS_BUILD'' ''true'' init_state
     = (Inr (),
        init_state\<lparr>opens := Suc (opens init_state),
          out_file := out_file init_state @ ''NEEDS_BUILD'' @ ''='' @ ''true'' @ newline\<rparr>)"
proof -
  let ?e = "run_env with_output []"
  have sink: "environ ?e ''GITHUB_OUTPUT'' = Some ''/tmp/out''"
             "open_ok ?e (opens init_state) ''/tmp/out''"
    by (simp_all add: run_env_def with_output_def)
  have nl: "CHR 0x0A \<in> set (''a'' @ newline @ ''b'')" "CHR 0x0A \<notin> set ''true''"
    by (simp_all add: newline_def)
  have fresh: "\<not> sublist (uuid4 ?e (uuids_drawn init_state)) (''a'' @ newline @ ''b'')"
    by (auto dest: sublist_length_le simp: run_env_def example_uuid_def newline_def)
  show ?thesis
    using output_block_or_line[of ?e "''/tmp/out''" init_state "''a'' @ newline @ ''b''" "''K''"]
          output_block_or_line[of ?e "''/tmp/out''" init_state "''true''" "''NEEDS_BUILD''"]
          sink nl fresh
    by blast
qed

text \<open>
  The claim as stated fails: when the payload has the very line that the drawn uuid
  gives, the block is written all the same, and its delimiter occurs in the payload.
\<close>

theorem delimiter_can_collide:
  "CHR 0x0A \<in> set colliding_value
   \<and> set_action_output (run_env with_output []) ''K'' colliding_value init_state
     = (Inr (),
        init_state\<lparr>opens := 1, uuids_drawn := 1,
          out_file := ''K<<'' @ (''ghadelimiter_'' @ example_uuid) @ newline @ colliding_value
                        @ newline @ (''ghadelimiter_'' @ example_uuid) @ newline\<rparr>)
   \<and> sublist (''ghadelimiter_'' @ example_uuid) colliding_value"
proof -
  have "sublist (''ghadelimiter_'' @ example_uuid)
          ((''a'' @ newline) @ (''ghadelimiter_'' @ example_uuid) @ [])"
    unfolding sublist_def by blast
  then have occurs: "sublist (''ghadelimiter_'' @ example_uuid) colliding_value"
    by (simp add: colliding_value_def)
  have nl: "CHR 0x0A \<in> set colliding_value"
    by (simp add: colliding_value_def newline_def)
  show ?thesis
    using nl occurs
    by (simp add: set_action_output_def run_env_def with_output_def init_state_def Let_def)
qed

section \<open>The Docker Hub check\<close>

text \<open>
  C5. \<open>check_docker_hub_tag\<close> sends one request. It returns the descriptor when the
  status is 200 and the body is JSON. On the status 404 it returns the absent result
  and prints nothing. On every other outcome (another status, a timeout, another
  network error, a body that is not JSON) it returns the absent result, after printing
  one error message. It always returns, and leaves the output file alone.
\<close>

theorem hub_check_never_fatal:
  "(http_get e (length (trace s)) (hub_request i t) = Response 200 (Some descriptor) \<longrightarrow>
      check_docker_hub_tag e i t s = (Inr descriptor, s\<lparr>trace := trace s @ [hub_request i t]\<rparr>))
   \<and> (http_get e (length (trace s)) (hub_request i t) = Response 404 body \<longrightarrow>
      check_docker_hub_tag e i t s = (Inr JNull, s\<lparr>trace := trace s @ [hub_request i t]\<rparr>))
   \<and> ((\<forall>descriptor. http_get e (length (trace s)) (hub_request i t)
                        \<noteq> Response 200 (Some descriptor)) \<longrightarrow>
      fst (check_docker_hub_tag e i t s) = Inr JNull)
   \<and> ((\<forall>descriptor. http_get e (length (trace s)) (hub_request i t)
                        \<noteq> Response 200 (Some descriptor))
       \<and> (\<forall>body. http_get e (length (trace s)) (hub_request i t) \<noteq> Response 404 body) \<longrightarrow>
      (\<exists>m. check_docker_hub_tag e i t s
            = (Inr JNull, log_error m (s\<lparr>trace := trace s @ [hub_request i t]\<rparr>))))
   \<and> (\<exists>r. fst (check_docker_hub_tag e i t s) = Inr r)
   \<and> trace (snd (check_docker_hub_tag e i t s)) = trace s @ [hub_request i t]
   \<and> keeps_output s (snd (check_docker_hub_tag e i t s))"
  by (cases "http_get e (length (trace s)) (hub_request i t)")
     (auto simp: check_docker_hub_tag_def requests_get_def hub_request_def Let_def
           split: option.splits)

theorem hub_check_never_fatal_witness:
  "http_get (run_env with_output [Response 200 (Some complete_tag)]) (length (trace init_state))
     (hub_request ''library/caddy'' ''2.8.4'') = Response 200 (Some complete_tag)
   \<and> check_docker_hub_tag (run_env with_output [Response 200 (Some complete_tag)])
        ''library/caddy'' ''2.8.4'' init_state
     = (Inr complete_tag,
        init_state\<lparr>trace := trace init_state @ [hub_request ''library/caddy'' ''2.8.4'']\<rparr>)
   \<and> http_get (run_env with_output [Response 404 None]) (length (trace init_state))
        (hub_request ''library/caddy'' ''2.8.4'') = Response 404 None
   \<and> check_docker_hub_tag (run_env with_output [Response 404 None])
        ''library/caddy'' ''2.8.4'' init_state
     = (Inr JNull,
        init_state\<lparr>trace := trace init_state @ [hub_request ''library/caddy'' ''2.8.4'']\<rparr>)
   \<and> (\<forall>descriptor. http_get (run_env with_output [Response 503 None]) (length (trace init_state))
                       (hub_request ''library/caddy'' ''2.8.4'')
                     \<noteq> Response 200 (Some descriptor))
   \<and> (\<forall>body. http_get (run_env with_output [Response 503 None]) (length (trace init_state))
                 (hub_request ''library/caddy'' ''2.8.4'')
               \<noteq> Response 404 body)
   \<and> fst (check_docker_hub_tag (run_env with_output [Response 503 None])
             ''library/caddy'' ''2.8.4'' init_state) = Inr JNull
   \<and> (\<exists>m. check_docker_hub_tag (run_env with_output [Response 503 None])
              ''library/caddy'' ''2.8.4'' init_state
            = (Inr JNull,
               log_error m
                 (init_state\<lparr>trace := trace init_state
                                         @ [hub_request ''library/caddy'' ''2.8.4'']\<rparr>)))"
proof -
  have a: "http_get (run_env with_output [r]) (length (trace init_state)) q = r" for r q
    by (simp add: run_env_def init_state_def)
  show ?thesis
    using hub_check_never_fatal
            [of "run_env with_output [Response 200 (Some complete_tag)]" init_state
                "''library/caddy''" "''2.8.4''" complete_tag]
          hub_check_never_fatal
            [of "run_env with_output [Response 404 None]" init_state
                "''library/caddy''" "''2.8.4''" _ None]
          hub_check_never_fatal
            [of "run_env with_output [Response 503 None]" init_state
                "''library/caddy''" "''2.8.4''"]
    by (simp add: a)
qed

section \<open>The decision\<close>

text \<open>
  C1. A run with a valid registry setting, in which the release lookup returns a tag,
  the check of the official image returns, and the output file can be opened. When the
  official image is not there with every required platform, the run writes
  \<open>NEEDS_BUILD=false\<close> and the version, prints that the image is not ready, and exits
  with the status 0 after the two requests of the release lookup and of the check of
  the official image: no request goes to the custom registry. When it is, the run
  writes \<open>NEEDS_BUILD=false\<close> if the custom image is there with every required platform
  and \<open>NEEDS_BUILD=true\<close> if it is not, and prints that decision.
\<close>

theorem build_needed_decision:
  assumes reg: "CUSTOM_REGISTRY e \<in> {''dockerhub'', ''ghcr''}"
      and rel: "get_latest_caddy_release e (environ e ''GITHUB_TOKEN'') s = (Inr tag, s1)"
      and off: "check_docker_hub_tag e OFFICIAL_CADDY_IMAGE (lstrip_v tag) s1 = (Inr upstream, s2)"
      and sink: "environ e ''GITHUB_OUTPUT'' = Some path"
      and o1: "open_ok e (opens s) path" and o2: "open_ok e (Suc (opens s)) path"
  shows "(image_status upstream = Inr ust \<and> ust \<noteq> PRESENT_COMPLETE \<longrightarrow>
            fst (main e s) = Inl (SystemExit 0)
            \<and> out_file (snd (main e s))
              = out_file s @ ''NEEDS_BUILD=false'' @ newline
                  @ sink_entry ''LATEST_VERSION'' tag (next_delimiter e s)
            \<and> trace (snd (main e s))
              = trace s @ [release_request (environ e ''GITHUB_TOKEN''),
                           hub_request OFFICIAL_CADDY_IMAGE (lstrip_v tag)]
            \<and> decisions (snd (main e s)) = decisions s @ [Info Result_not_ready])
         \<and> (image_status upstream = Inr PRESENT_COMPLETE \<longrightarrow>
            lookup_custom e (CUSTOM_TAG_PREFIX @ lstrip_v tag) (environ e ''GITHUB_TOKEN'') s2
              = (Inr custom, s3) \<longrightarrow>
            image_status custom = Inr cst \<longrightarrow>
            fst (main e s) = Inr ()
            \<and> out_file (snd (main e s))
              = out_file s
                  @ ''NEEDS_BUILD='' @ (if cst = PRESENT_COMPLETE then ''false'' else ''true'')
                  @ newline @ sink_entry ''LATEST_VERSION'' tag (next_delimiter e s)
            \<and> decisions (snd (main e s))
              = decisions s @ [Info (Final_decision tag (cst \<noteq> PRESENT_COMPLETE))])"
proof -
  let ?tok = "environ e ''GITHUB_TOKEN''"
  obtain a0 a1 a2 where a: "startup e s = (Inr (), a0)"
      "get_latest_caddy_release e ?tok a0 = (Inr tag, a1)"
      "check_official e (lstrip_v tag) a1
       = ((case image_status upstream of
             Inl x \<Rightarrow> Inl x | Inr st \<Rightarrow> Inr (st = PRESENT_COMPLETE)), a2)"
      "keeps_output s a2" "same_decisions s a2" "trace a2 = trace s2"
    using run_to_official[OF reg rel off] by blast
  have t2: "trace s2 = trace s @ [release_request ?tok,
                                  hub_request OFFICIAL_CADDY_IMAGE (lstrip_v tag)]"
    using rel off by (rule requests_of_two_checks)
  have not_ready: "fst (main e s) = Inl (SystemExit 0)
      \<and> out_file (snd (main e s))
        = out_file s @ ''NEEDS_BUILD=false'' @ newline
            @ sink_entry ''LATEST_VERSION'' tag (next_delimiter e s)
      \<and> trace (snd (main e s))
        = trace s @ [release_request ?tok, hub_request OFFICIAL_CADDY_IMAGE (lstrip_v tag)]
      \<and> decisions (snd (main e s)) = decisions s @ [Info Result_not_ready]"
    if u: "image_status upstream = Inr ust" "ust \<noteq> PRESENT_COMPLETE"
  proof -
    have c: "check_official e (lstrip_v tag) a1 = (Inr False, a2)"
      using a(3) u by simp
    obtain z where z: "and_then (set_action_output e ''NEEDS_BUILD'' ''false''
                                   (log_info Result_not_ready a2))
                         (\<lambda>u s. and_then (set_action_output e ''LATEST_VERSION'' tag s)
                                  (\<lambda>u s. (Inl (SystemExit 0), (\<lambda>s. s) s)))
                       = (Inl (SystemExit 0) :: exc + unit, (\<lambda>s. s) z)"
        "out_file z = out_file s @ ''NEEDS_BUILD='' @ ''false'' @ newline
                        @ sink_entry ''LATEST_VERSION'' tag (next_delimiter e s)"
        "trace z = trace a2" "decisions z = decisions s @ [Info Result_not_ready]"
      using end_of_run_written[OF sink o1 o2 flags_one_line(1) a(4) a(5),
              of Result_not_ready tag "Inl (SystemExit 0) :: exc + unit" "\<lambda>s. s"]
      by auto
    have "main e s = (Inl (SystemExit 0), z)"
      using main_not_ready[OF a(1) a(2) c] z(1) by (rule trans)
    then show ?thesis using z(2,3,4) a(6) t2 by simp
  qed
  have ready: "fst (main e s) = Inr ()
      \<and> out_file (snd (main e s))
        = out_file s
            @ ''NEEDS_BUILD='' @ (if cst = PRESENT_COMPLETE then ''false'' else ''true'')
            @ newline @ sink_entry ''LATEST_VERSION'' tag (next_delimiter e s)
      \<and> decisions (snd (main e s))
        = decisions s @ [Info (Final_decision tag (cst \<noteq> PRESENT_COMPLETE))]"
    if u: "image_status upstream = Inr PRESENT_COMPLETE"
      and cus: "lookup_custom e (CUSTOM_TAG_PREFIX @ lstrip_v tag) ?tok s2 = (Inr custom, s3)"
      and cst: "image_status custom = Inr cst"
  proof -
    have c: "check_official e (lstrip_v tag) a1 = (Inr True, a2)"
      using a(3) u by simp
    obtain a3 where a3: "check_custom e (CUSTOM_TAG_PREFIX @ lstrip_v tag) ?tok a2
                         = (Inr (cst = PRESENT_COMPLETE), a3)"
        "keeps_output s a3" "same_decisions s a3"
      using run_to_custom[OF cus a(6) a(4) a(5)] cst by auto
    let ?flag = "if cst = PRESENT_COMPLETE then ''false'' else ''true''"
    have flag: "CHR 0x0A \<notin> set ?flag" by simp
    obtain z where z: "and_then (set_action_output e ''NEEDS_BUILD'' ?flag
                                   (log_info (Final_decision tag (cst \<noteq> PRESENT_COMPLETE)) a3))
                         (\<lambda>u s. and_then (set_action_output e ''LATEST_VERSION'' tag s)
                                  (\<lambda>u s. (Inr (), log_info Finished s)))
                       = (Inr () :: exc + unit, log_info Finished z)"
        "out_file z = out_file s @ ''NEEDS_BUILD='' @ ?flag @ newline
                        @ sink_entry ''LATEST_VERSION'' tag (next_delimiter e s)"
        "decisions z = decisions s @ [Info (Final_decision tag (cst \<noteq> PRESENT_COMPLETE))]"
      using end_of_run_written[OF sink o1 o2 flag a3(2) a3(3),
              of "Final_decision tag (cst \<noteq> PRESENT_COMPLETE)" tag "Inr () :: exc + unit" "log_info Finished"]
      by auto
    have "main e s = (Inr (), log_info Finished z)"
      using main_ready[OF a(1) a(2) c a3(1)] z(1) by (rule trans)
    moreover have "decisions (log_info Finished z) = decisions z"
      by (simp add: decisions_log_info)
    moreover have "out_file (log_info Finished z) = out_file z"
      by (simp add: log_info_def)
    ultimately show ?thesis using z(2,3) by simp
  qed
  show ?thesis using not_ready ready by blast
qed

theorem build_needed_decision_witness:
  "CUSTOM_REGISTRY (run_env with_output not_ready_answers) \<in> {''dockerhub'', ''ghcr''}
   \<and> get_latest_caddy_release (run_env with_output not_ready_answers)
        (environ (run_env with_output not_ready_answers) ''GITHUB_TOKEN'') init_state
     = (Inr ''v2.8.4'', after_release (run_env with_output not_ready_answers))
   \<and> check_docker_hub_tag (run_env with_output not_ready_answers) OFFICIAL_CADDY_IMAGE
        (lstrip_v ''v2.8.4'') (after_release (run_env with_output not_ready_answers))
     = (Inr JNull, after_official (run_env with_output not_ready_answers))
   \<and> environ (run_env with_output not_ready_answers) ''GITHUB_OUTPUT'' = Some ''/tmp/out''
   \<and> open_ok (run_env with_output not_ready_answers) (opens init_state) ''/tmp/out''
   \<and> open_ok (run_env with_output not_ready_answers) (Suc (opens init_state)) ''/tmp/out''
   \<and> image_status JNull = Inr ABSENT
   \<and> ABSENT \<noteq> PRESENT_COMPLETE
   \<and> fst (main (run_env with_output not_ready_answers) init_state) = Inl (SystemExit 0)
   \<and> out_file (snd (main (run_env with_output not_ready_answers) init_state))
     = ''NEEDS_BUILD=false'' @ newline @ ''LATEST_VERSION=v2.8.4'' @ newline
   \<and> trace (snd (main (run_env with_output not_ready_answers) init_state))
     = [release_request None, hub_request OFFICIAL_CADDY_IMAGE ''2.8.4'']
   \<and> CUSTOM_REGISTRY (run_env with_output_and_token ready_answers) \<in> {''dockerhub'', ''ghcr''}
   \<and> image_status complete_tag = Inr PRESENT_COMPLETE
   \<and> lookup_custom (run_env with_output_and_token ready_answers)
        (CUSTOM_TAG_PREFIX @ lstrip_v ''v2.8.4'')
        (environ (run_env with_output_and_token ready_answers) ''GITHUB_TOKEN'')
        (after_official (run_env with_output_and_token ready_answers))
     = (Inr (JObj [(''images'', JArr [linux_entry ''amd64'', linux_entry ''arm64''])]),
        after_custom (run_env with_output_and_token ready_answers))
   \<and> image_status (JObj [(''images'', JArr [linux_entry ''amd64'', linux_entry ''arm64''])])
     = Inr PRESENT_COMPLETE
   \<and> fst (main (run_env with_output_and_token ready_answers) init_state) = Inr ()
   \<and> out_file (snd (main (run_env with_output_and_token ready_answers) init_state))
     = ''NEEDS_BUILD=false'' @ newline @ ''LATEST_VERSION=v2.8.4'' @ newline
   \<and> decisions (snd (main (run_env with_output_and_token ready_answers) init_state))
     = [Info (Final_decision ''v2.8.4'' False)]"
proof -
  let ?e1 = "run_env with_output not_ready_answers"
  let ?e2 = "run_env with_output_and_token ready_answers"
  have reg1: "CUSTOM_REGISTRY ?e1 \<in> {''dockerhub'', ''ghcr''}"
    by (simp add: example_registry with_output_def)
  have reg2: "CUSTOM_REGISTRY ?e2 \<in> {''dockerhub'', ''ghcr''}"
    by (simp add: example_registry with_output_and_token_def)
  have rel1: "get_latest_caddy_release ?e1 (environ ?e1 ''GITHUB_TOKEN'') init_state
              = (Inr ''v2.8.4'', after_release ?e1)"
    unfolding not_ready_answers_def by (rule example_release)
  have rel2: "get_latest_caddy_release ?e2 (environ ?e2 ''GITHUB_TOKEN'') init_state
              = (Inr ''v2.8.4'', after_release ?e2)"
    unfolding ready_answers_def by (rule example_release)
  have off1: "check_docker_hub_tag ?e1 OFFICIAL_CADDY_IMAGE (lstrip_v ''v2.8.4'')
                (after_release ?e1) = (Inr JNull, after_official ?e1)"
    unfolding not_ready_answers_def lstrip_v_example by (rule example_official_missing)
  have off2: "check_docker_hub_tag ?e2 OFFICIAL_CADDY_IMAGE (lstrip_v ''v2.8.4'')
                (after_release ?e2) = (Inr complete_tag, after_official ?e2)"
    unfolding ready_answers_def lstrip_v_example by (rule example_official)
  have cus2: "lookup_custom ?e2 (CUSTOM_TAG_PREFIX @ lstrip_v ''v2.8.4'')
                (environ ?e2 ''GITHUB_TOKEN'') (after_official ?e2)
              = (Inr (JObj [(''images'', JArr [linux_entry ''amd64'', linux_entry ''arm64''])]),
                 after_custom ?e2)"
    unfolding ready_answers_def lstrip_v_example CUSTOM_TAG_PREFIX_def append_Nil
    by (rule example_custom) (simp_all add: with_output_and_token_def)
  have sink1: "environ ?e1 ''GITHUB_OUTPUT'' = Some ''/tmp/out''"
              "open_ok ?e1 (opens init_state) ''/tmp/out''"
              "open_ok ?e1 (Suc (opens init_state)) ''/tmp/out''"
    by (simp_all add: run_env_def with_output_def)
  have sink2: "environ ?e2 ''GITHUB_OUTPUT'' = Some ''/tmp/out''"
              "open_ok ?e2 (opens init_state) ''/tmp/out''"
              "open_ok ?e2 (Suc (opens init_state)) ''/tmp/out''"
    by (simp_all add: run_env_def with_output_and_token_def)
  have tok1: "environ ?e1 ''GITHUB_TOKEN'' = None"
    by (simp add: run_env_def with_output_def)
  have start: "out_file init_state = []" "trace init_state = []" "decisions init_state = []"
    by (simp_all add: init_state_def decisions_def)
  have entry: "sink_entry ''LATEST_VERSION'' ''v2.8.4'' d = ''LATEST_VERSION=v2.8.4'' @ newline"
    for d
    by (simp add: sink_entry_def)
  have absent: "ABSENT \<noteq> PRESENT_COMPLETE"
    by simp
  show ?thesis
    using build_needed_decision[OF reg1 rel1 off1 sink1, of ABSENT]
          build_needed_decision[OF reg2 rel2 off2 sink2, of _ _ _ PRESENT_COMPLETE]
          reg1 rel1 off1 sink1 reg2 cus2 absent
    by (simp add: absent_status complete_tag_status index_images_status start entry tok1
          lstrip_v_example)
qed

section \<open>The token exchange of the GHCR check\<close>

text \<open>
  C6. \<open>check_ghcr_tag\<close> with a token that is not empty, when the exchange is not
  answered by the status 200 with a JSON object (another status, a timeout or another
  exception, a body that is no JSON object): the call goes on to fetch the manifest
  with the GitHub token itself, having printed one line; the second request is the
  manifest request that carries this token, and what the call returns is what the
  answer to that request gives.
\<close>

theorem token_exchange_failure_falls_back:
  "t \<noteq> [] \<longrightarrow>
   (\<forall>auth. http_get e (length (trace s)) (token_request i t)
              \<noteq> Response 200 (Some (JObj auth))) \<longrightarrow>
     (\<exists>m. check_ghcr_tag e i tag (Some t) s
           = fetch_manifest e i tag (JStr t)
               (log_info m (s\<lparr>trace := trace s @ [token_request i t]\<rparr>)))
     \<and> prefix (trace s @ [token_request i t, manifest_request i tag t])
          (trace (snd (check_ghcr_tag e i tag (Some t) s)))
     \<and> fst (check_ghcr_tag e i tag (Some t) s)
       = fst (read_manifest e i tag (JStr t)
                (http_get e (Suc (length (trace s))) (manifest_request i tag t))
                (s\<lparr>trace := trace s @ [token_request i t, manifest_request i tag t]\<rparr>))"
proof (intro impI)
  assume t: "t \<noteq> []"
    and failed: "\<forall>auth. http_get e (length (trace s)) (token_request i t)
                          \<noteq> Response 200 (Some (JObj auth))"
  obtain m where m: "check_ghcr_tag e i tag (Some t) s
                     = fetch_manifest e i tag (JStr t)
                         (log_info m (s\<lparr>trace := trace s @ [token_request i t]\<rparr>))"
    using ghcr_fallback[OF t failed] by blast
  let ?s1 = "log_info m (s\<lparr>trace := trace s @ [token_request i t]\<rparr>)"
  have "prefix (trace ?s1 @ [manifest_request i tag (py_str (JStr t))])
          (trace (snd (fetch_manifest e i tag (JStr t) ?s1)))"
    by (rule fetch_manifest_trace)
  then have requests: "prefix (trace s @ [token_request i t, manifest_request i tag t])
                         (trace (snd (check_ghcr_tag e i tag (Some t) s)))"
    by (simp add: m py_str_JStr)
  have result: "fst (check_ghcr_tag e i tag (Some t) s)
       = fst (read_manifest e i tag (JStr t)
                (http_get e (Suc (length (trace s))) (manifest_request i tag t))
                (s\<lparr>trace := trace s @ [token_request i t, manifest_request i tag t]\<rparr>))"
    using t failed by (rule ghcr_fallback_result)
  show "(\<exists>m. check_ghcr_tag e i tag (Some t) s
           = fetch_manifest e i tag (JStr t)
               (log_info m (s\<lparr>trace := trace s @ [token_request i t]\<rparr>)))
     \<and> prefix (trace s @ [token_request i t, manifest_request i tag t])
          (trace (snd (check_ghcr_tag e i tag (Some t) s)))
     \<and> fst (check_ghcr_tag e i tag (Some t) s)
       = fst (read_manifest e i tag (JStr t)
                (http_get e (Suc (length (trace s))) (manifest_request i tag t))
                (s\<lparr>trace := trace s @ [token_request i t, manifest_request i tag t]\<rparr>))"
    using m requests result by blast
qed

theorem token_exchange_failure_falls_back_witness:
  "''t0k'' \<noteq> []
   \<and> (\<forall>auth. http_get (run_env with_token [Response 403 None, Response 200 (Some index_manifest)])
                 (length (trace init_state))
                 (token_request ''caddybuilds/caddy-cloudflare'' ''t0k'')
               \<noteq> Response 200 (Some (JObj auth)))
   \<and> prefix (trace init_state
              @ [token_request ''caddybuilds/caddy-cloudflare'' ''t0k'',
                 manifest_request ''caddybuilds/caddy-cloudflare'' ''2.8.4'' ''t0k''])
        (trace (snd (check_ghcr_tag
                       (run_env with_token [Response 403 None, Response 200 (Some index_manifest)])
                       ''caddybuilds/caddy-cloudflare'' ''2.8.4'' (Some ''t0k'') init_state)))
   \<and> fst (check_ghcr_tag
             (run_env with_token [Response 403 None, Response 200 (Some index_manifest)])
             ''caddybuilds/caddy-cloudflare'' ''2.8.4'' (Some ''t0k'') init_state)
     = Inr (JObj [(''images'', JArr [linux_entry ''amd64'', linux_entry ''arm64''])])"
proof -
  have t: "''t0k'' \<noteq> []"
    by simp
  have failed: "\<forall>auth. http_get (run_env with_token
                                   [Response 403 None, Response 200 (Some index_manifest)])
                          (length (trace init_state))
                          (token_request ''caddybuilds/caddy-cloudflare'' ''t0k'')
                        \<noteq> Response 200 (Some (JObj auth))"
    by (simp add: example_answers)
  show ?thesis
    using token_exchange_failure_falls_back
            [of "''t0k''" "run_env with_token [Response 403 None, Response 200 (Some index_manifest)]"
                init_state "''caddybuilds/caddy-cloudflare''" "''2.8.4''"]
          t failed
    by (simp add: example_answers index_result)
qed

section \<open>GHCR without a token\<close>

text \<open>
  C9. Without a token (none, or an empty one) \<open>check_ghcr_tag\<close> returns the absent
  result at once: it prints one error and sends no request. With the registry \<open>ghcr\<close>
  the check of the custom image then gives the verdict false, again without a request.
  So a run with this registry and no \<^verbatim>\<open>GITHUB_TOKEN\<close>, in which the official image is
  there with every required platform and the output file can be opened, writes
  \<open>NEEDS_BUILD=true\<close>, after the two requests of the release lookup and of the check of
  the official image.
\<close>

theorem ghcr_without_token_needs_build:
  "(tok = None \<or> tok = Some []) \<longrightarrow>
     check_ghcr_tag e i t tok s = (Inr JNull, log_error Ghcr_no_token s)
     \<and> (CUSTOM_REGISTRY e = ''ghcr'' \<longrightarrow>
          check_custom e t tok s
          = (Inr False,
             log_info (Custom_not_found t (registry_name e))
               (log_error Ghcr_no_token
                  (log_info (Step2 (CUSTOM_IMAGE e) t (str_upper e (CUSTOM_REGISTRY e))) s))))
     \<and> (CUSTOM_REGISTRY e = ''ghcr'' \<longrightarrow>
        environ e ''GITHUB_TOKEN'' = tok \<longrightarrow>
        get_latest_caddy_release e tok s = (Inr tag, s1) \<longrightarrow>
        check_docker_hub_tag e OFFICIAL_CADDY_IMAGE (lstrip_v tag) s1 = (Inr upstream, s2) \<longrightarrow>
        image_status upstream = Inr PRESENT_COMPLETE \<longrightarrow>
        environ e ''GITHUB_OUTPUT'' = Some path \<longrightarrow>
        open_ok e (opens s) path \<longrightarrow>
        open_ok e (Suc (opens s)) path \<longrightarrow>
          fst (main e s) = Inr ()
          \<and> out_file (snd (main e s))
            = out_file s @ ''NEEDS_BUILD=true'' @ newline
                @ sink_entry ''LATEST_VERSION'' tag (next_delimiter e s)
          \<and> trace (snd (main e s))
            = trace s @ [release_request tok, hub_request OFFICIAL_CADDY_IMAGE (lstrip_v tag)]
          \<and> decisions (snd (main e s)) = decisions s @ [Info (Final_decision tag True)])"
proof (intro impI)
  assume no_token: "tok = None \<or> tok = Some []"
  have ghcr: "check_ghcr_tag e i t tok s = (Inr JNull, log_error Ghcr_no_token s)" for i t s
    using no_token by (auto simp: check_ghcr_tag_def)
  have custom: "check_custom e t tok s
          = (Inr False,
             log_info (Custom_not_found t (registry_name e))
               (log_error Ghcr_no_token
                  (log_info (Step2 (CUSTOM_IMAGE e) t (str_upper e (CUSTOM_REGISTRY e))) s)))"
    if "CUSTOM_REGISTRY e = ''ghcr''" for t s
    using that by (simp add: check_custom_def lookup_custom_def ghcr)
  have run: "fst (main e s) = Inr ()
          \<and> out_file (snd (main e s))
            = out_file s @ ''NEEDS_BUILD=true'' @ newline
                @ sink_entry ''LATEST_VERSION'' tag (next_delimiter e s)
          \<and> trace (snd (main e s))
            = trace s @ [release_request tok, hub_request OFFICIAL_CADDY_IMAGE (lstrip_v tag)]
          \<and> decisions (snd (main e s)) = decisions s @ [Info (Final_decision tag True)]"
    if reg: "CUSTOM_REGISTRY e = ''ghcr''"
      and tok: "environ e ''GITHUB_TOKEN'' = tok"
      and rel: "get_latest_caddy_release e tok s = (Inr tag, s1)"
      and off: "check_docker_hub_tag e OFFICIAL_CADDY_IMAGE (lstrip_v tag) s1 = (Inr upstream, s2)"
      and u: "image_status upstream = Inr PRESENT_COMPLETE"
      and sink: "environ e ''GITHUB_OUTPUT'' = Some path"
      and o1: "open_ok e (opens s) path" and o2: "open_ok e (Suc (opens s)) path"
  proof -
    have reg': "CUSTOM_REGISTRY e \<in> {''dockerhub'', ''ghcr''}"
      using reg by simp
    obtain a0 a1 a2 where a: "startup e s = (Inr (), a0)"
        "get_latest_caddy_release e tok a0 = (Inr tag, a1)"
        "check_official e (lstrip_v tag) a1
         = ((case image_status upstream of
               Inl x \<Rightarrow> Inl x | Inr st \<Rightarrow> Inr (st = PRESENT_COMPLETE)), a2)"
        "keeps_output s a2" "same_decisions s a2" "trace a2 = trace s2"
      using run_to_official[OF reg' rel off] by blast
    have t2: "trace s2 = trace s @ [release_request tok,
                                    hub_request OFFICIAL_CADDY_IMAGE (lstrip_v tag)]"
      using rel off by (rule requests_of_two_checks)
    have c: "check_official e (lstrip_v tag) a1 = (Inr True, a2)"
      using a(3) u by simp
    let ?t = "CUSTOM_TAG_PREFIX @ lstrip_v tag"
    let ?a3 = "log_info (Custom_not_found ?t (registry_name e))
                 (log_error Ghcr_no_token
                    (log_info (Step2 (CUSTOM_IMAGE e) ?t (str_upper e (CUSTOM_REGISTRY e))) a2))"
    have cc: "check_custom e ?t (environ e ''GITHUB_TOKEN'') a2 = (Inr False, ?a3)"
      unfolding tok using reg by (rule custom)
    have a3: "keeps_output s ?a3" "same_decisions s ?a3" "trace ?a3 = trace a2"
      using a(4,5) by simp_all
    have flag: "CHR 0x0A \<notin> set (if False then ''false'' else ''true'')"
      by simp
    obtain z where z: "and_then (set_action_output e ''NEEDS_BUILD''
                                   (if False then ''false'' else ''true'')
                                   (log_info (Final_decision tag (\<not> False)) ?a3))
                         (\<lambda>u s. and_then (set_action_output e ''LATEST_VERSION'' tag s)
                                  (\<lambda>u s. (Inr (), log_info Finished s)))
                       = (Inr () :: exc + unit, log_info Finished z)"
        "out_file z = out_file s @ ''NEEDS_BUILD='' @ (if False then ''false'' else ''true'')
                        @ newline @ sink_entry ''LATEST_VERSION'' tag (next_delimiter e s)"
        "trace z = trace ?a3"
        "decisions z = decisions s @ [Info (Final_decision tag (\<not> False))]"
      using end_of_run_written[OF sink o1 o2 flag a3(1) a3(2),
              of "Final_decision tag (\<not> False)" tag "Inr () :: exc + unit" "log_info Finished"]
      by auto
    have "main e s = (Inr (), log_info Finished z)"
      using main_ready[OF a(1) a(2)[folded tok] c cc] z(1) by (rule trans)
    moreover have "decisions (log_info Finished z) = decisions z"
      by (simp add: decisions_log_info)
    moreover have "out_file (log_info Finished z) = out_file z"
      by (simp add: log_info_def)
    ultimately show ?thesis
      using z(2,3,4) a3(3) a(6) t2 by simp
  qed
  show "check_ghcr_tag e i t tok s = (Inr JNull, log_error Ghcr_no_token s)
     \<and> (CUSTOM_REGISTRY e = ''ghcr'' \<longrightarrow>
          check_custom e t tok s
          = (Inr False,
             log_info (Custom_not_found t (registry_name e))
               (log_error Ghcr_no_token
                  (log_info (Step2 (CUSTOM_IMAGE e) t (str_upper e (CUSTOM_REGISTRY e))) s))))
     \<and> (CUSTOM_REGISTRY e = ''ghcr'' \<longrightarrow>
        environ e ''GITHUB_TOKEN'' = tok \<longrightarrow>
        get_latest_caddy_release e tok s = (Inr tag, s1) \<longrightarrow>
        check_docker_hub_tag e OFFICIAL_CADDY_IMAGE (lstrip_v tag) s1 = (Inr upstream, s2) \<longrightarrow>
        image_status upstream = Inr PRESENT_COMPLETE \<longrightarrow>
        environ e ''GITHUB_OUTPUT'' = Some path \<longrightarrow>
        open_ok e (opens s) path \<longrightarrow>
        open_ok e (Suc (opens s)) path \<longrightarrow>
          fst (main e s) = Inr ()
          \<and> out_file (snd (main e s))
            = out_file s @ ''NEEDS_BUILD=true'' @ newline
                @ sink_entry ''LATEST_VERSION'' tag (next_delimiter e s)
          \<and> trace (snd (main e s))
            = trace s @ [release_request tok, hub_request OFFICIAL_CADDY_IMAGE (lstrip_v tag)]
          \<and> decisions (snd (main e s)) = decisions s @ [Info (Final_decision tag True)])"
    using ghcr custom run by blast
qed

theorem ghcr_without_token_needs_build_witness:
  "check_ghcr_tag (run_env with_output [release_answer, Response 200 (Some complete_tag)])
     ''caddybuilds/caddy-cloudflare'' ''2.8.4'' None init_state
   = (Inr JNull, log_error Ghcr_no_token init_state)
   \<and> CUSTOM_REGISTRY (run_env with_output [release_answer, Response 200 (Some complete_tag)])
     = ''ghcr''
   \<and> environ (run_env with_output [release_answer, Response 200 (Some complete_tag)])
       ''GITHUB_TOKEN'' = None
   \<and> get_latest_caddy_release
       (run_env with_output [release_answer, Response 200 (Some complete_tag)]) None init_state
     = (Inr ''v2.8.4'',
        after_release (run_env with_output [release_answer, Response 200 (Some complete_tag)]))
   \<and> check_docker_hub_tag
       (run_env with_output [release_answer, Response 200 (Some complete_tag)])
       OFFICIAL_CADDY_IMAGE (lstrip_v ''v2.8.4'')
       (after_release (run_env with_output [release_answer, Response 200 (Some complete_tag)]))
     = (Inr complete_tag,
        after_official (run_env with_output [release_answer, Response 200 (Some complete_tag)]))
   \<and> image_status complete_tag = Inr PRESENT_COMPLETE
   \<and> environ (run_env with_output [release_answer, Response 200 (Some complete_tag)])
       ''GITHUB_OUTPUT'' = Some ''/tmp/out''
   \<and> open_ok (run_env with_output [release_answer, Response 200 (Some complete_tag)])
       (opens init_state) ''/tmp/out''
   \<and> open_ok (run_env with_output [release_answer, Response 200 (Some complete_tag)])
       (Suc (opens init_state)) ''/tmp/out''
   \<and> fst (main (run_env with_output [release_answer, Response 200 (Some complete_tag)])
            init_state) = Inr ()
   \<and> out_file (snd (main (run_env with_output [release_answer, Response 200 (Some complete_tag)])
                       init_state))
     = ''NEEDS_BUILD=true'' @ newline @ ''LATEST_VERSION=v2.8.4'' @ newline
   \<and> trace (snd (main (run_env with_output [release_answer, Response 200 (Some complete_tag)])
                    init_state))
     = [release_request None, hub_request OFFICIAL_CADDY_IMAGE ''2.8.4'']"
proof -
  let ?e = "run_env with_output [release_answer, Response 200 (Some complete_tag)]"
  have reg: "CUSTOM_REGISTRY ?e = ''ghcr''"
    by (simp add: example_registry with_output_def)
  have tok: "environ ?e ''GITHUB_TOKEN'' = None"
    by (simp add: run_env_def with_output_def)
  have rel: "get_latest_caddy_release ?e None init_state = (Inr ''v2.8.4'', after_release ?e)"
    using example_release[of with_output "[Response 200 (Some complete_tag)]"]
    by (simp only: tok)
  have off: "check_docker_hub_tag ?e OFFICIAL_CADDY_IMAGE (lstrip_v ''v2.8.4'')
               (after_release ?e) = (Inr complete_tag, after_official ?e)"
    unfolding lstrip_v_example by (rule example_official)
  have sink: "environ ?e ''GITHUB_OUTPUT'' = Some ''/tmp/out''"
             "open_ok ?e (opens init_state) ''/tmp/out''"
             "open_ok ?e (Suc (opens init_state)) ''/tmp/out''"
    by (simp_all add: run_env_def with_output_def)
  have start: "out_file init_state = []" "trace init_state = []"
    by (simp_all add: init_state_def)
  have entry: "sink_entry ''LATEST_VERSION'' ''v2.8.4'' d = ''LATEST_VERSION=v2.8.4'' @ newline"
    for d
    by (simp add: sink_entry_def)
  show ?thesis
    using ghcr_without_token_needs_build
            [of None ?e "''caddybuilds/caddy-cloudflare''" "''2.8.4''" init_state
                "''v2.8.4''" "after_release ?e" complete_tag "after_official ?e" "''/tmp/out''"]
          reg tok rel off sink
    by (simp add: complete_tag_status start entry lstrip_v_example)
qed

section \<open>A run without an output file\<close>

text \<open>
  C10. When \<^verbatim>\<open>GITHUB_OUTPUT\<close> is not set, \<open>set_action_output\<close> prints a warning and
  returns, and nothing else changes. A run with a valid registry setting in which the
  release lookup returns a tag and the check of the official image returns then ends
  with the exit status 0: it prints its decision and the two warnings, and leaves the
  output file as it was.
\<close>

theorem missing_output_path_is_not_fatal:
  "environ e ''GITHUB_OUTPUT'' = None \<longrightarrow>
     set_action_output e k v s = (Inr (), s\<lparr>log := log s @ [Warning_no_output k]\<rparr>)
     \<and> (CUSTOM_REGISTRY e \<in> {''dockerhub'', ''ghcr''} \<longrightarrow>
        get_latest_caddy_release e (environ e ''GITHUB_TOKEN'') s = (Inr tag, s1) \<longrightarrow>
        check_docker_hub_tag e OFFICIAL_CADDY_IMAGE (lstrip_v tag) s1 = (Inr upstream, s2) \<longrightarrow>
          (image_status upstream = Inr ust \<and> ust \<noteq> PRESENT_COMPLETE \<longrightarrow>
             fst (main e s) = Inl (SystemExit 0)
             \<and> exit_code (fst (main e s)) = 0
             \<and> keeps_output s (snd (main e s))
             \<and> decisions (snd (main e s)) = decisions s @ [Info Result_not_ready]
             \<and> suffix [Info Result_not_ready, Warning_no_output ''NEEDS_BUILD'',
                       Warning_no_output ''LATEST_VERSION'']
                  (log (snd (main e s))))
          \<and> (image_status upstream = Inr PRESENT_COMPLETE \<longrightarrow>
             lookup_custom e (CUSTOM_TAG_PREFIX @ lstrip_v tag) (environ e ''GITHUB_TOKEN'') s2
               = (Inr custom, s3) \<longrightarrow>
             image_status custom = Inr cst \<longrightarrow>
               fst (main e s) = Inr ()
               \<and> exit_code (fst (main e s)) = 0
               \<and> keeps_output s (snd (main e s))
               \<and> decisions (snd (main e s))
                 = decisions s @ [Info (Final_decision tag (cst \<noteq> PRESENT_COMPLETE))]
               \<and> suffix [Info (Final_decision tag (cst \<noteq> PRESENT_COMPLETE)),
                         Warning_no_output ''NEEDS_BUILD'', Warning_no_output ''LATEST_VERSION'',
                         Info Finished]
                    (log (snd (main e s)))))"
proof (intro impI)
  assume sink: "environ e ''GITHUB_OUTPUT'' = None"
  let ?tok = "environ e ''GITHUB_TOKEN''"
  have skipped: "set_action_output e k v s = (Inr (), s\<lparr>log := log s @ [Warning_no_output k]\<rparr>)"
    using sink by (rule set_action_output_skipped)
  have not_ready: "fst (main e s) = Inl (SystemExit 0)
             \<and> exit_code (fst (main e s)) = 0
             \<and> keeps_output s (snd (main e s))
             \<and> decisions (snd (main e s)) = decisions s @ [Info Result_not_ready]
             \<and> suffix [Info Result_not_ready, Warning_no_output ''NEEDS_BUILD'',
                       Warning_no_output ''LATEST_VERSION'']
                  (log (snd (main e s)))"
    if reg: "CUSTOM_REGISTRY e \<in> {''dockerhub'', ''ghcr''}"
      and rel: "get_latest_caddy_release e ?tok s = (Inr tag, s1)"
      and off: "check_docker_hub_tag e OFFICIAL_CADDY_IMAGE (lstrip_v tag) s1 = (Inr upstream, s2)"
      and u: "image_status upstream = Inr ust" "ust \<noteq> PRESENT_COMPLETE"
  proof -
    obtain a0 a1 a2 where a: "startup e s = (Inr (), a0)"
        "get_latest_caddy_release e ?tok a0 = (Inr tag, a1)"
        "check_official e (lstrip_v tag) a1
         = ((case image_status upstream of
               Inl x \<Rightarrow> Inl x | Inr st \<Rightarrow> Inr (st = PRESENT_COMPLETE)), a2)"
        "keeps_output s a2" "same_decisions s a2" "trace a2 = trace s2"
      using run_to_official[OF reg rel off] by blast
    have c: "check_official e (lstrip_v tag) a1 = (Inr False, a2)"
      using a(3) u by simp
    obtain z where z: "and_then (set_action_output e ''NEEDS_BUILD'' ''false''
                                   (log_info Result_not_ready a2))
                         (\<lambda>u s. and_then (set_action_output e ''LATEST_VERSION'' tag s)
                                  (\<lambda>u s. (Inl (SystemExit 0), (\<lambda>s. s) s)))
                       = (Inl (SystemExit 0) :: exc + unit, (\<lambda>s. s) z)"
        "keeps_output s z" "decisions z = decisions s @ [Info Result_not_ready]"
        "log z = log a2 @ [Info Result_not_ready, Warning_no_output ''NEEDS_BUILD'',
                           Warning_no_output ''LATEST_VERSION'']"
      using end_of_run_skipped[OF sink a(4) a(5),
              of Result_not_ready "''false''" tag "Inl (SystemExit 0) :: exc + unit" "\<lambda>s. s"]
      by auto
    have "main e s = (Inl (SystemExit 0), z)"
      using main_not_ready[OF a(1) a(2) c] z(1) by (rule trans)
    then show ?thesis using z(2,3,4) by (simp add: suffix_def)
  qed
  have ready: "fst (main e s) = Inr ()
               \<and> exit_code (fst (main e s)) = 0
               \<and> keeps_output s (snd (main e s))
               \<and> decisions (snd (main e s))
                 = decisions s @ [Info (Final_decision tag (cst \<noteq> PRESENT_COMPLETE))]
               \<and> suffix [Info (Final_decision tag (cst \<noteq> PRESENT_COMPLETE)),
                         Warning_no_output ''NEEDS_BUILD'', Warning_no_output ''LATEST_VERSION'',
                         Info Finished]
                    (log (snd (main e s)))"
    if reg: "CUSTOM_REGISTRY e \<in> {''dockerhub'', ''ghcr''}"
      and rel: "get_latest_caddy_release e ?tok s = (Inr tag, s1)"
      and off: "check_docker_hub_tag e OFFICIAL_CADDY_IMAGE (lstrip_v tag) s1 = (Inr upstream, s2)"
      and u: "image_status upstream = Inr PRESENT_COMPLETE"
      and cus: "lookup_custom e (CUSTOM_TAG_PREFIX @ lstrip_v tag) ?tok s2 = (Inr custom, s3)"
      and cst: "image_status custom = Inr cst"
  proof -
    obtain a0 a1 a2 where a: "startup e s = (Inr (), a0)"
        "get_latest_caddy_release e ?tok a0 = (Inr tag, a1)"
        "check_official e (lstrip_v tag) a1
         = ((case image_status upstream of
               Inl x \<Rightarrow> Inl x | Inr st \<Rightarrow> Inr (st = PRESENT_COMPLETE)), a2)"
        "keeps_output s a2" "same_decisions s a2" "trace a2 = trace s2"
      using run_to_official[OF reg rel off] by blast
    have c: "check_official e (lstrip_v tag) a1 = (Inr True, a2)"
      using a(3) u by simp
    obtain a3 where a3: "check_custom e (CUSTOM_TAG_PREFIX @ lstrip_v tag) ?tok a2
                         = (Inr (cst = PRESENT_COMPLETE), a3)"
        "keeps_output s a3" "same_decisions s a3"
      using run_to_custom[OF cus a(6) a(4) a(5)] cst by auto
    let ?flag = "if cst = PRESENT_COMPLETE then ''false'' else ''true''"
    obtain z where z: "and_then (set_action_output e ''NEEDS_BUILD'' ?flag
                                   (log_info (Final_decision tag (cst \<noteq> PRESENT_COMPLETE)) a3))
                         (\<lambda>u s. and_then (set_action_output e ''LATEST_VERSION'' tag s)
                                  (\<lambda>u s. (Inr (), log_info Finished s)))
                       = (Inr () :: exc + unit, log_info Finished z)"
        "keeps_output s z"
        "decisions z = decisions s @ [Info (Final_decision tag (cst \<noteq> PRESENT_COMPLETE))]"
        "log z = log a3 @ [Info (Final_decision tag (cst \<noteq> PRESENT_COMPLETE)),
                           Warning_no_output ''NEEDS_BUILD'',
                           Warning_no_output ''LATEST_VERSION'']"
      using end_of_run_skipped[OF sink a3(2) a3(3),
              of "Final_decision tag (cst \<noteq> PRESENT_COMPLETE)" ?flag tag
                 "Inr () :: exc + unit" "log_info Finished"]
      by auto
    have "main e s = (Inr (), log_info Finished z)"
      using main_ready[OF a(1) a(2) c a3(1)] z(1) by (rule trans)
    moreover have "decisions (log_info Finished z) = decisions z"
      by (simp add: decisions_log_info)
    moreover have "log (log_info Finished z) = log z @ [Info Finished]"
      by (simp add: log_info_def)
    ultimately show ?thesis using z(2,3,4) by (simp add: suffix_def)
  qed
  show "set_action_output e k v s = (Inr (), s\<lparr>log := log s @ [Warning_no_output k]\<rparr>)
     \<and> (CUSTOM_REGISTRY e \<in> {''dockerhub'', ''ghcr''} \<longrightarrow>
        get_latest_caddy_release e (environ e ''GITHUB_TOKEN'') s = (Inr tag, s1) \<longrightarrow>
        check_docker_hub_tag e OFFICIAL_CADDY_IMAGE (lstrip_v tag) s1 = (Inr upstream, s2) \<longrightarrow>
          (image_status upstream = Inr ust \<and> ust \<noteq> PRESENT_COMPLETE \<longrightarrow>
             fst (main e s) = Inl (SystemExit 0)
             \<and> exit_code (fst (main e s)) = 0
             \<and> keeps_output s (snd (main e s))
             \<and> decisions (snd (main e s)) = decisions s @ [Info Result_not_ready]
             \<and> suffix [Info Result_not_ready, Warning_no_output ''NEEDS_BUILD'',
                       Warning_no_output ''LATEST_VERSION'']
                  (log (snd (main e s))))
          \<and> (image_status upstream = Inr PRESENT_COMPLETE \<longrightarrow>
             lookup_custom e (CUSTOM_TAG_PREFIX @ lstrip_v tag) (environ e ''GITHUB_TOKEN'') s2
               = (Inr custom, s3) \<longrightarrow>
             image_status custom = Inr cst \<longrightarrow>
               fst (main e s) = Inr ()
               \<and> exit_code (fst (main e s)) = 0
               \<and> keeps_output s (snd (main e s))
               \<and> decisions (snd (main e s))
                 = decisions s @ [Info (Final_decision tag (cst \<noteq> PRESENT_COMPLETE))]
               \<and> suffix [Info (Final_decision tag (cst \<noteq> PRESENT_COMPLETE)),
                         Warning_no_output ''NEEDS_BUILD'', Warning_no_output ''LATEST_VERSION'',
                         Info Finished]
                    (log (snd (main e s)))))"
    using skipped not_ready ready by blast
qed

theorem missing_output_path_is_not_fatal_witness:
  "environ (run_env with_token ready_answers) ''GITHUB_OUTPUT'' = None
   \<and> set_action_output (run_env with_token ready_answers) ''NEEDS_BUILD'' ''true'' init_state
     = (Inr (), init_state\<lparr>log := log init_state @ [Warning_no_output ''NEEDS_BUILD'']\<rparr>)
   \<and> CUSTOM_REGISTRY (run_env with_token ready_answers) \<in> {''dockerhub'', ''ghcr''}
   \<and> get_latest_caddy_release (run_env with_token ready_answers)
        (environ (run_env with_token ready_answers) ''GITHUB_TOKEN'') init_state
     = (Inr ''v2.8.4'', after_release (run_env with_token ready_answers))
   \<and> check_docker_hub_tag (run_env with_token ready_answers) OFFICIAL_CADDY_IMAGE
        (lstrip_v ''v2.8.4'') (after_release (run_env with_token ready_answers))
     = (Inr complete_tag, after_official (run_env with_token ready_answers))
   \<and> image_status complete_tag = Inr PRESENT_COMPLETE
   \<and> lookup_custom (run_env with_token ready_answers)
        (CUSTOM_TAG_PREFIX @ lstrip_v ''v2.8.4'')
        (environ (run_env with_token ready_answers) ''GITHUB_TOKEN'')
        (after_official (run_env with_token ready_answers))
     = (Inr (JObj [(''images'', JArr [linux_entry ''amd64'', linux_entry ''arm64''])]),
        after_custom (run_env with_token ready_answers))
   \<and> image_status (JObj [(''images'', JArr [linux_entry ''amd64'', linux_entry ''arm64''])])
     = Inr PRESENT_COMPLETE
   \<and> fst (main (run_env with_token ready_answers) init_state) = Inr ()
   \<and> exit_code (fst (main (run_env with_token ready_answers) init_state)) = 0
   \<and> keeps_output init_state (snd (main (run_env with_token ready_answers) init_state))
   \<and> decisions (snd (main (run_env with_token ready_answers) init_state))
     = [Info (Final_decision ''v2.8.4'' False)]
   \<and> suffix [Info (Final_decision ''v2.8.4'' False), Warning_no_output ''NEEDS_BUILD'',
             Warning_no_output ''LATEST_VERSION'', Info Finished]
        (log (snd (main (run_env with_token ready_answers) init_state)))"
proof -
  let ?e = "run_env with_token ready_answers"
  have sink: "environ ?e ''GITHUB_OUTPUT'' = None"
    by (simp add: run_env_def with_token_def)
  have reg: "CUSTOM_REGISTRY ?e \<in> {''dockerhub'', ''ghcr''}"
    by (simp add: example_registry with_token_def)
  have rel: "get_latest_caddy_release ?e (environ ?e ''GITHUB_TOKEN'') init_state
             = (Inr ''v2.8.4'', after_release ?e)"
    unfolding ready_answers_def by (rule example_release)
  have off: "check_docker_hub_tag ?e OFFICIAL_CADDY_IMAGE (lstrip_v ''v2.8.4'')
               (after_release ?e) = (Inr complete_tag, after_official ?e)"
    unfolding ready_answers_def lstrip_v_example by (rule example_official)
  have cus: "lookup_custom ?e (CUSTOM_TAG_PREFIX @ lstrip_v ''v2.8.4'')
               (environ ?e ''GITHUB_TOKEN'') (after_official ?e)
             = (Inr (JObj [(''images'', JArr [linux_entry ''amd64'', linux_entry ''arm64''])]),
                after_custom ?e)"
    unfolding ready_answers_def lstrip_v_example CUSTOM_TAG_PREFIX_def append_Nil
    by (rule example_custom) (simp_all add: with_token_def)
  note st = complete_tag_status index_images_status
  have start: "decisions init_state = []"
    by (simp add: init_state_def decisions_def)
  have run: "set_action_output ?e ''NEEDS_BUILD'' ''true'' init_state
        = (Inr (), init_state\<lparr>log := log init_state @ [Warning_no_output ''NEEDS_BUILD'']\<rparr>)
      \<and> fst (main ?e init_state) = Inr ()
      \<and> exit_code (fst (main ?e init_state)) = 0
      \<and> keeps_output init_state (snd (main ?e init_state))
      \<and> decisions (snd (main ?e init_state))
        = decisions init_state
            @ [Info (Final_decision ''v2.8.4'' (PRESENT_COMPLETE \<noteq> PRESENT_COMPLETE))]
      \<and> suffix [Info (Final_decision ''v2.8.4'' (PRESENT_COMPLETE \<noteq> PRESENT_COMPLETE)),
                Warning_no_output ''NEEDS_BUILD'', Warning_no_output ''LATEST_VERSION'',
                Info Finished]
           (log (snd (main ?e init_state)))"
    using missing_output_path_is_not_fatal
            [of ?e "''NEEDS_BUILD''" "''true''" init_state "''v2.8.4''" "after_release ?e"
                complete_tag "after_official ?e" ABSENT
                "JObj [(''images'', JArr [linux_entry ''amd64'', linux_entry ''arm64''])]"
                "after_custom ?e" PRESENT_COMPLETE]
          sink reg rel off cus st
    by blast
  show ?thesis
    using run sink reg rel off cus st by (simp add: start)
qed

end
